theory Spec2Isabelle
  imports Complex_Main "HOL-Library.AList" "HOL-Library.Char_ord" "HOL-Library.List_Lexorder"
    "HOL-Library.Product_Lexorder"
begin

section \<open>The map client: coordinates and the St. Paul bounds\<close>

text \<open>
  The client keeps its map state in one reactive object. The part modelled here is the
  fixed bounding box \<open>map.bounds\<close> (north-west and south-east corners) and the view
  that \<open>setView\<close> changes. Coordinates are JavaScript numbers; the model takes them as
  reals, and a value that \<open>Number.isFinite\<close> rejects (NaN, an infinity) is the separate
  constructor \<open>NonFin\<close> of \<open>jsnum\<close>.
\<close>

datatype jsnum = Fin real | NonFin

record latlng =
  lat :: real
  lng :: real

definition bounds_nw :: latlng where
  "bounds_nw = \<lparr>lat = 45.008206, lng = -93.217977\<rparr>"

definition bounds_se :: latlng where
  "bounds_se = \<lparr>lat = 44.883658, lng = -92.993787\<rparr>"

text \<open>
  \<^verbatim>\<open>
  function clampToStPaul(lat, lng) {
    const clampedLat = Math.max(map.bounds.se.lat, Math.min(map.bounds.nw.lat, lat))
    const clampedLng = Math.max(map.bounds.nw.lng, Math.min(map.bounds.se.lng, lng))
    return { lat: clampedLat, lng: clampedLng }
  }
  \<close>
\<close>

definition clampToStPaul :: "real \<Rightarrow> real \<Rightarrow> latlng" where
  "clampToStPaul lat0 lng0 =
     (let clampedLat = max (lat bounds_se) (min (lat bounds_nw) lat0);
          clampedLng = max (lng bounds_nw) (min (lng bounds_se) lng0)
      in \<lparr>lat = clampedLat, lng = clampedLng\<rparr>)"

definition in_bounds :: "latlng \<Rightarrow> bool" where
  "in_bounds p \<longleftrightarrow>
     lat bounds_se \<le> lat p \<and> lat p \<le> lat bounds_nw \<and>
     lng bounds_nw \<le> lng p \<and> lng p \<le> lng bounds_se"

section \<open>JavaScript strings\<close>

text \<open>
  A JavaScript string is modelled as a \<open>string\<close>, one \<open>char\<close> per code unit, which
  covers the code units below 256. Of the white space that \<open>trim\<close> and \<open>parseInt\<close>
  strip, these are the code units in that range: TAB, LF, VT, FF, CR, SPACE and the
  no-break space.
\<close>

definition is_js_space :: "char \<Rightarrow> bool" where
  "is_js_space c \<longleftrightarrow>
     c \<in> set [CHR 0x09, CHR 0x0A, CHR 0x0B, CHR 0x0C, CHR 0x0D, CHR 0x20, CHR 0xA0]"

definition js_trim :: "string \<Rightarrow> string" where
  "js_trim s = rev (dropWhile is_js_space (rev (dropWhile is_js_space s)))"

definition is_digit :: "char \<Rightarrow> bool" where
  "is_digit c \<longleftrightarrow> CHR ''0'' \<le> c \<and> c \<le> CHR ''9''"

section \<open>The map client: state, location search\<close>

text \<open>
  The state the handlers below change: the view of the Leaflet map (\<open>setView\<close>), the
  single pinned incident marker \<open>map.crimeMarker\<close>, and the messages shown with
  \<open>alert\<close>, oldest first.

  Both handlers ask the Nominatim search service for the first match of a query text
  and read it the same way. What the \<open>try\<close> block can see of the answer is one of:
  the request or the decoding of the answer threw (with \<open>err.message\<close>); the decoded
  data is not a non-empty array; or there is a first element, whose \<open>lat\<close> and \<open>lon\<close>
  went through \<open>parseFloat\<close>. The service is a parameter \<open>geocode\<close> of the handlers,
  from the query text (before \<open>encodeURIComponent\<close>) to that answer.
\<close>

record client =
  center :: latlng
  zoom :: nat
  crimeMarker :: "latlng option"
  alerts :: "string list"

datatype geo_response = Thrown string | NoMatch | FirstMatch jsnum jsnum

definition alert :: "string \<Rightarrow> client \<Rightarrow> client" where
  "alert msg st = st\<lparr>alerts := alerts st @ [msg]\<rparr>"

definition setView :: "latlng \<Rightarrow> nat \<Rightarrow> client \<Rightarrow> client" where
  "setView p z st = st\<lparr>center := p, zoom := z\<rparr>"

text \<open>
  \<^verbatim>\<open>
  async function handleLocationGo() {
    const q = locationQuery.value.trim()
    if (!q) return
    try {
      const res = await fetch(`https://nominatim.openstreetmap.org/search?q=...`)
      const data = await res.json()
      if (Array.isArray(data) && data.length > 0) {
        let lat = parseFloat(data[0].lat)
        let lng = parseFloat(data[0].lon)
        if (!Number.isFinite(lat) || !Number.isFinite(lng)) {
          alert('Location found but coordinates were invalid.')
          return
        }
        const clamped = clampToStPaul(lat, lng)
        map.leaflet.setView([clamped.lat, clamped.lng], 15, { animate: true })
      } else {
        alert('Location not found')
      }
    } catch (err) {
      alert('Location search failed: ' + (err?.message || err))
    }
  }
  \<close>
\<close>

definition initial_client :: client where
  "initial_client =
     \<lparr>center = \<lparr>lat = 44.955139, lng = -93.102222\<rparr>, zoom = 12,
      crimeMarker = None, alerts = []\<rparr>"

definition handleLocationGo :: "(string \<Rightarrow> geo_response) \<Rightarrow> string \<Rightarrow> client \<Rightarrow> client" where
  "handleLocationGo geocode locationQuery st =
     (let q = js_trim locationQuery in
      if q = [] then st
      else case geocode q of
        Thrown msg \<Rightarrow> alert (''Location search failed: '' @ msg) st
      | NoMatch \<Rightarrow> alert ''Location not found'' st
      | FirstMatch (Fin lat0) (Fin lng0) \<Rightarrow> setView (clampToStPaul lat0 lng0) 15 st
      | FirstMatch _ _ \<Rightarrow> alert ''Location found but coordinates were invalid.'' st)"

section \<open>The map client: showing one incident\<close>

text \<open>
  The incidents held by the client are the JSON rows of \<open>GET /incidents\<close>. Two fields
  matter below. \<open>inc_block\<close> is the field \<open>block\<close>: a string, or \<open>null\<close> when the stored
  column is (\<open>None\<close>). The field \<open>neighborhood_number\<close> is read only through
  \<open>Number(inc.neighborhood_number)\<close>, so \<open>inc_neighborhood_number\<close> holds that number:
  \<open>Fin n\<close>, or \<open>NonFin\<close> when it is not finite.
\<close>

record incident_json =
  inc_block :: "string option"
  inc_neighborhood_number :: jsnum

text \<open>
  \<^verbatim>\<open>incident.block.replace(/(\d+)X/g, '$10')\<close>

  The pattern has one capture group, so the replacement text \<open>$10\<close> is the group
  \<open>$1\<close> followed by the character \<open>0\<close>. The search is the regular expression's: at
  each position, leftmost first, the longest run of digits \<open>0\<close> to \<open>9\<close> that starts
  there matches when the character after it is \<open>X\<close> (a shorter run is followed by a
  digit, so backtracking finds nothing more); after a match the search goes on behind
  the \<open>X\<close>, otherwise the character is kept and the search moves one position on.
\<close>

function replace_digits_X :: "string \<Rightarrow> string" where
  "replace_digits_X [] = []"
| "replace_digits_X (c # cs) =
     (if is_digit c then
        (case dropWhile is_digit cs of
           x # rest \<Rightarrow>
             if x = CHR ''X'' then (c # takeWhile is_digit cs) @ ''0'' @ replace_digits_X rest
             else c # replace_digits_X cs
         | [] \<Rightarrow> c # replace_digits_X cs)
      else c # replace_digits_X cs)"
  by pat_completeness auto
termination
proof (relation "measure length")
  show "wf (measure length)" by simp
next
  fix c cs x rest
  assume "dropWhile is_digit cs = x # rest"
  then have "length (x # rest) \<le> length cs"
    by (metis length_dropWhile_le)
  then show "(rest, c # cs) \<in> measure length" by simp
qed simp_all

text \<open>
  The same replacement told from left to right in one pass, with a flag that says
  whether the character before was a digit of the block. It is used to state and prove
  what \<open>replace_digits_X\<close> does to each position.
\<close>

fun expand_from :: "bool \<Rightarrow> string \<Rightarrow> string" where
  "expand_from d [] = []"
| "expand_from d (c # cs) =
     (if c = CHR ''X'' \<and> d then CHR ''0'' else c) # expand_from (is_digit c) cs"

definition incident_address :: "string \<Rightarrow> string" where
  "incident_address b = replace_digits_X b @ '', St. Paul, MN''"

text \<open>
  \<^verbatim>\<open>
  async function showIncidentOnMap(incident) {
    if (map.crimeMarker) { map.crimeMarker.remove(); map.crimeMarker = null }
    const address = incident.block.replace(/(\d+)X/g, '$10') + ', St. Paul, MN'
    try {
      const res = await fetch(`...search?q=${encodeURIComponent(address)}&format=json&limit=1`)
      const data = await res.json()
      if (Array.isArray(data) && data.length > 0) {
        const lat = parseFloat(data[0].lat)
        const lng = parseFloat(data[0].lon)
        if (!Number.isFinite(lat) || !Number.isFinite(lng)) {
          alert('Could not locate address on map (invalid coords)')
          return
        }
        map.crimeMarker = L.marker([lat, lng], { icon: redIcon }).addTo(map.leaflet)
        ...
        map.leaflet.setView([lat, lng], 16, { animate: true })
      } else {
        alert('Could not locate address on map')
      }
    } catch (err) {
      alert('Error locating address: ' + err.message)
    }
  }
  \<close>
  With \<open>block\<close> equal to \<open>null\<close> the call of \<open>replace\<close> throws outside the \<open>try\<close>: the
  old marker is gone and nothing else happens.
\<close>

definition showIncidentOnMap ::
  "(string \<Rightarrow> geo_response) \<Rightarrow> incident_json \<Rightarrow> client \<Rightarrow> client" where
  "showIncidentOnMap geocode incident st0 =
     (let st = st0\<lparr>crimeMarker := None\<rparr> in
      case inc_block incident of
        None \<Rightarrow> st
      | Some b \<Rightarrow>
          (case geocode (incident_address b) of
             Thrown msg \<Rightarrow> alert (''Error locating address: '' @ msg) st
           | NoMatch \<Rightarrow> alert ''Could not locate address on map'' st
           | FirstMatch (Fin lat0) (Fin lng0) \<Rightarrow>
               setView \<lparr>lat = lat0, lng = lng0\<rparr> 16
                 (st\<lparr>crimeMarker := Some \<lparr>lat = lat0, lng = lng0\<rparr>\<rparr>)
           | FirstMatch _ _ \<Rightarrow> alert ''Could not locate address on map (invalid coords)'' st))"

section \<open>The map client: neighborhood circles\<close>

text \<open>
  The seventeen fixed marker places, by neighborhood id, in the order of the source.
\<close>

record neighborhood_location =
  location :: "real \<times> real"
  loc_id :: real

definition neighborhood_locations :: "neighborhood_location list" where
  "neighborhood_locations =
    [\<lparr>location = (44.942068, -93.020521), loc_id = 1\<rparr>,
     \<lparr>location = (44.977413, -93.025156), loc_id = 2\<rparr>,
     \<lparr>location = (44.931244, -93.079578), loc_id = 3\<rparr>,
     \<lparr>location = (44.956192, -93.060189), loc_id = 4\<rparr>,
     \<lparr>location = (44.978883, -93.068163), loc_id = 5\<rparr>,
     \<lparr>location = (44.975766, -93.113887), loc_id = 6\<rparr>,
     \<lparr>location = (44.959639, -93.121271), loc_id = 7\<rparr>,
     \<lparr>location = (44.947700, -93.128505), loc_id = 8\<rparr>,
     \<lparr>location = (44.930276, -93.119911), loc_id = 9\<rparr>,
     \<lparr>location = (44.982752, -93.147910), loc_id = 10\<rparr>,
     \<lparr>location = (44.963631, -93.167548), loc_id = 11\<rparr>,
     \<lparr>location = (44.973971, -93.197965), loc_id = 12\<rparr>,
     \<lparr>location = (44.949043, -93.178261), loc_id = 13\<rparr>,
     \<lparr>location = (44.934848, -93.176736), loc_id = 14\<rparr>,
     \<lparr>location = (44.913106, -93.170779), loc_id = 15\<rparr>,
     \<lparr>location = (44.937705, -93.136997), loc_id = 16\<rparr>,
     \<lparr>location = (44.949203, -93.093739), loc_id = 17\<rparr>]"

text \<open>
  \<^verbatim>\<open>
  const counts = new Map()
  for (const inc of incidents.value) {
    const n = Number(inc.neighborhood_number)
    if (!Number.isFinite(n)) continue
    counts.set(n, (counts.get(n) || 0) + 1)
  }
  \<close>
  The \<open>Map\<close> is an association list in insertion order.
\<close>

definition counts_get :: "(real \<times> nat) list \<Rightarrow> real \<Rightarrow> nat" where
  "counts_get counts n = (case map_of counts n of None \<Rightarrow> 0 | Some c \<Rightarrow> c)"

fun count_step :: "(real \<times> nat) list \<Rightarrow> incident_json \<Rightarrow> (real \<times> nat) list" where
  "count_step counts inc =
     (case inc_neighborhood_number inc of
        NonFin \<Rightarrow> counts
      | Fin n \<Rightarrow> AList.update n (counts_get counts n + 1) counts)"

definition count_incidents :: "incident_json list \<Rightarrow> (real \<times> nat) list" where
  "count_incidents incidents = foldl count_step [] incidents"

text \<open>
  \<^verbatim>\<open>
  const maxCount = Math.max(1, ...counts.values())
  for (const nm of map.neighborhood_locations) {
    const id = nm.id
    const count = counts.get(id) || 0
    const r = 8 + 25 * Math.sqrt(count / maxCount)
    nm.marker = L.circleMarker(nm.location, { radius: r, ... })
  }
  \<close>
  The arithmetic is the source's, over the reals.
\<close>

text \<open>The number of loaded incidents whose neighborhood number is \<open>n\<close>.\<close>

definition incident_count :: "incident_json list \<Rightarrow> real \<Rightarrow> nat" where
  "incident_count incidents n =
     length (filter (\<lambda>inc. inc_neighborhood_number inc = Fin n) incidents)"

definition in_neighborhood :: "real \<Rightarrow> incident_json" where
  "in_neighborhood n = \<lparr>inc_block = None, inc_neighborhood_number = Fin n\<rparr>"

definition maxCount :: "(real \<times> nat) list \<Rightarrow> nat" where
  "maxCount counts = fold max (map snd counts) 1"

definition circle_radius :: "nat \<Rightarrow> nat \<Rightarrow> real" where
  "circle_radius count mx = 8 + 25 * sqrt (real count / real mx)"

record circle =
  circle_id :: real
  circle_at :: "real \<times> real"
  radius :: real
  popup_count :: nat

definition updateNeighborhoodCircles :: "incident_json list \<Rightarrow> circle list" where
  "updateNeighborhoodCircles incidents =
     (let counts = count_incidents incidents;
          mx = maxCount counts
      in map (\<lambda>nm.
            let count = counts_get counts (loc_id nm)
            in \<lparr>circle_id = loc_id nm, circle_at = location nm,
                radius = circle_radius count mx, popup_count = count\<rparr>)
          neighborhood_locations)"

section \<open>The query service: reading a request\<close>

text \<open>
  A query parameter of a request is absent (\<open>None\<close>) or a string. The handlers test it
  with \<open>if (req.query.x)\<close>, which holds for a string that is not empty; \<open>given\<close> returns
  the string in that case. (A parameter repeated in the URL reaches the handler as an
  array; that shape is not part of this model.)
\<close>

definition given :: "string option \<Rightarrow> string option" where
  "given v = (case v of None \<Rightarrow> None | Some s \<Rightarrow> if s = [] then None else Some s)"

text \<open>\<open>s.split(',')\<close>: the pieces between the commas, one more than there are commas.\<close>

fun split_comma :: "string \<Rightarrow> string list" where
  "split_comma [] = [[]]"
| "split_comma (c # cs) =
     (if c = CHR '','' then [] # split_comma cs
      else case split_comma cs of
             x # xs \<Rightarrow> (c # x) # xs
           | [] \<Rightarrow> [[c]])"

text \<open>\<open>xs.join(sep)\<close>.\<close>

fun js_join :: "string \<Rightarrow> string list \<Rightarrow> string" where
  "js_join sep [] = []"
| "js_join sep [x] = x"
| "js_join sep (x # y # ys) = x @ sep @ js_join sep (y # ys)"

text \<open>
  \<^verbatim>\<open>
  let codes = req.query.code.split(',').map((c) => c.trim());
  let placeholders = codes.map(() => '?').join(',');
  \<close>
\<close>

definition filter_values :: "string \<Rightarrow> string list" where
  "filter_values s = map js_trim (split_comma s)"

definition placeholders :: "string list \<Rightarrow> string" where
  "placeholders vs = js_join '','' (map (\<lambda>v. ''?'') vs)"

subsection \<open>parseInt\<close>

text \<open>
  \<open>parseInt(string)\<close> with no radix: leading white space is dropped, then one sign,
  then \<open>0x\<close> or \<open>0X\<close> selects radix 16 (otherwise 10), then the longest run of digits
  of the radix is read; what follows the digits is ignored, and with no digit the
  result is NaN. \<open>Num n\<close> stands for the Number nearest to the integer \<open>n\<close>; an integer
  that rounds beyond the largest finite Number, from \<open>2^1024 - 2^970\<close> on, gives plus or
  minus \<open>Infinity\<close>.
\<close>

datatype parsed_int = NaN | Num int | Infinity

definition digit_value :: "char \<Rightarrow> nat option" where
  "digit_value c =
     (if CHR ''0'' \<le> c \<and> c \<le> CHR ''9'' then Some (of_char c - 48)
      else if CHR ''a'' \<le> c \<and> c \<le> CHR ''z'' then Some (of_char c - 87)
      else if CHR ''A'' \<le> c \<and> c \<le> CHR ''Z'' then Some (of_char c - 55)
      else None)"

definition radix_digit :: "nat \<Rightarrow> char \<Rightarrow> bool" where
  "radix_digit R c = (case digit_value c of Some v \<Rightarrow> v < R | None \<Rightarrow> False)"

definition digits_value :: "nat \<Rightarrow> string \<Rightarrow> nat" where
  "digits_value R z =
     foldl (\<lambda>acc c. acc * R + (case digit_value c of Some v \<Rightarrow> v | None \<Rightarrow> 0)) 0 z"

definition js_parseInt :: "string \<Rightarrow> parsed_int" where
  "js_parseInt inputString =
     (let S = dropWhile is_js_space inputString;
          (negative, S) =
             (case S of
                c # rest \<Rightarrow>
                  if c = CHR ''-'' then (True, rest)
                  else if c = CHR ''+'' then (False, rest)
                  else (False, S)
              | [] \<Rightarrow> (False, S));
          (R, S) =
             (case S of
                c0 # c1 # rest \<Rightarrow>
                  if c0 = CHR ''0'' \<and> (c1 = CHR ''x'' \<or> c1 = CHR ''X'') then (16, rest)
                  else (10, S)
              | _ \<Rightarrow> (10, S));
          Z = takeWhile (radix_digit R) S
      in if Z = [] then NaN
         else let mathInt = int (digits_value R Z)
              in if 2 ^ 1024 - 2 ^ 970 \<le> mathInt then Infinity
                 else Num (if negative then - mathInt else mathInt))"

text \<open>
  \<^verbatim>\<open>
  let limit = req.query.limit ? parseInt(req.query.limit) : 1000;
  if (!Number.isFinite(limit) || limit <= 0) limit = 1000;
  \<close>
\<close>

definition effective_limit :: "string option \<Rightarrow> int" where
  "effective_limit l =
     (let limit = (case given l of Some s \<Rightarrow> js_parseInt s | None \<Rightarrow> Num 1000)
      in case limit of
           Num n \<Rightarrow> if n \<le> 0 then 1000 else n
         | _ \<Rightarrow> 1000)"

text \<open>
  The text that \<open>${limit}\<close> puts into the statement is the Number's own rendering. It is a
  parameter \<open>num_text\<close> of the statement builders, from the integer to its text. For an
  integer below \<open>2^53\<close> that text is the decimal numeral, which \<open>decimal\<close> computes; it
  stands in for \<open>num_text\<close> where a statement is evaluated.
\<close>

function decimal_nat :: "nat \<Rightarrow> string" where
  "decimal_nat n =
     (if n < 10 then [''0123456789'' ! n]
      else decimal_nat (n div 10) @ [''0123456789'' ! (n mod 10)])"
  by pat_completeness auto
termination
  by (relation "measure (\<lambda>n. n)") auto

definition decimal :: "int \<Rightarrow> string" where
  "decimal n = (if n < 0 then CHR ''-'' # decimal_nat (nat (- n)) else decimal_nat (nat n))"

section \<open>The query service: the store\<close>

text \<open>
  The table \<open>Incidents\<close> is a list of rows in the order of insertion. A column holds an
  SQL value: NULL, an integer, a real or a text.
\<close>

datatype sqlval = SqlNull | SqlInt int | SqlReal real | SqlText string

record incident_row =
  case_number :: sqlval
  date_time :: sqlval
  code :: sqlval
  incident :: sqlval
  police_grid :: sqlval
  neighborhood_number :: sqlval
  block :: sqlval

datatype column =
  Col_case_number | Col_date_time | Col_code | Col_incident | Col_police_grid
  | Col_neighborhood_number | Col_block

fun column_name :: "column \<Rightarrow> string" where
  "column_name Col_case_number = ''case_number''"
| "column_name Col_date_time = ''date_time''"
| "column_name Col_code = ''code''"
| "column_name Col_incident = ''incident''"
| "column_name Col_police_grid = ''police_grid''"
| "column_name Col_neighborhood_number = ''neighborhood_number''"
| "column_name Col_block = ''block''"

fun column_value :: "column \<Rightarrow> incident_row \<Rightarrow> sqlval" where
  "column_value Col_case_number r = case_number r"
| "column_value Col_date_time r = date_time r"
| "column_value Col_code r = code r"
| "column_value Col_incident r = incident r"
| "column_value Col_police_grid r = police_grid r"
| "column_value Col_neighborhood_number r = neighborhood_number r"
| "column_value Col_block r = block r"

text \<open>
  The database engine is not part of the source, and neither is the schema of the
  table. What the handlers need of them is a parameter, a record of functions:
  \<^item> \<open>sql_rejects text params\<close>: the engine answers the statement with an error (the
    promise of \<open>dbSelect\<close> or \<open>dbRun\<close> is rejected);
  \<^item> \<open>sql_equals col v p\<close>: a stored value \<open>v\<close> of column \<open>col\<close> equals the bound
    parameter \<open>p\<close>, under the conversions of the column's declared type;
  \<^item> \<open>sql_stored col p\<close>: the value kept in column \<open>col\<close> when \<open>p\<close> is inserted;
  \<^item> \<open>sql_DATE\<close> and \<open>sql_TIME\<close>: the functions \<open>DATE(x)\<close> and \<open>TIME(x)\<close>.
\<close>

record sql_engine =
  sql_rejects :: "string \<Rightarrow> sqlval list \<Rightarrow> bool"
  sql_equals :: "column \<Rightarrow> sqlval \<Rightarrow> sqlval \<Rightarrow> bool"
  sql_stored :: "column \<Rightarrow> sqlval \<Rightarrow> sqlval"
  sql_DATE :: "sqlval \<Rightarrow> sqlval"
  sql_TIME :: "sqlval \<Rightarrow> sqlval"

text \<open>
  The order of stored values, used by \<open>ORDER BY\<close> and by a comparison of two values of
  no declared type: NULL first, then the numbers by value, then the texts byte by byte.
  A comparison with NULL is not true.
\<close>

fun sql_order_key :: "sqlval \<Rightarrow> nat \<times> real \<times> string" where
  "sql_order_key SqlNull = (0, 0, [])"
| "sql_order_key (SqlInt n) = (1, real_of_int n, [])"
| "sql_order_key (SqlReal x) = (1, x, [])"
| "sql_order_key (SqlText s) = (2, 0, s)"

definition sql_ge :: "sqlval \<Rightarrow> sqlval \<Rightarrow> bool" where
  "sql_ge a b \<longleftrightarrow> a \<noteq> SqlNull \<and> b \<noteq> SqlNull \<and> sql_order_key b \<le> sql_order_key a"

definition sql_le :: "sqlval \<Rightarrow> sqlval \<Rightarrow> bool" where
  "sql_le a b \<longleftrightarrow> a \<noteq> SqlNull \<and> b \<noteq> SqlNull \<and> sql_order_key a \<le> sql_order_key b"

section \<open>The query service: GET /codes and GET /neighborhoods\<close>

text \<open>
  \<^verbatim>\<open>
  let query = 'SELECT code, incident_type FROM Codes';
  let params = [];
  if (req.query.code) {
    let codes = req.query.code.split(',').map((c) => c.trim());
    let placeholders = codes.map(() => '?').join(',');
    query += ` WHERE code IN (${placeholders})`;
    params = codes;
  }
  query += ' ORDER BY code';
  \<close>
  The statement is the pair of its text and its bound parameters.
\<close>

definition codes_statement :: "string option \<Rightarrow> string \<times> sqlval list" where
  "codes_statement q_code =
     (let query = ''SELECT code, incident_type FROM Codes'';
          (query, params) =
             (case given q_code of
                Some s \<Rightarrow>
                  (let codes = filter_values s
                   in (query @ '' WHERE code IN ('' @ placeholders codes @ '')'',
                       map SqlText codes))
              | None \<Rightarrow> (query, []))
      in (query @ '' ORDER BY code'', params))"

definition neighborhoods_statement :: "string option \<Rightarrow> string \<times> sqlval list" where
  "neighborhoods_statement q_id =
     (let query = ''SELECT neighborhood_number, neighborhood_name FROM Neighborhoods'';
          (query, params) =
             (case given q_id of
                Some s \<Rightarrow>
                  (let ids = filter_values s
                   in (query @ '' WHERE neighborhood_number IN ('' @ placeholders ids @ '')'',
                       map SqlText ids))
              | None \<Rightarrow> (query, []))
      in (query @ '' ORDER BY neighborhood_number'', params))"

section \<open>The query service: GET /incidents\<close>

record incidents_request =
  q_start_date :: "string option"
  q_end_date :: "string option"
  q_code :: "string option"
  q_grid :: "string option"
  q_neighborhood :: "string option"
  q_limit :: "string option"

text \<open>
  \<open>whereClauses\<close> is a list of texts in the source. Here each clause is a value that
  knows its text (\<open>clause_sql\<close>) and its meaning on a row (\<open>clause_holds\<close>); an \<open>IN\<close>
  clause carries the number of its placeholders.
\<close>

datatype clause = Date_ge | Date_le | In_list column nat

fun clause_sql :: "clause \<Rightarrow> string" where
  "clause_sql Date_ge = ''date(date_time) >= ?''"
| "clause_sql Date_le = ''date(date_time) <= ?''"
| "clause_sql (In_list col n) =
     column_name col @ '' IN ('' @ placeholders (replicate n []) @ '')''"

fun clause_arity :: "clause \<Rightarrow> nat" where
  "clause_arity Date_ge = 1"
| "clause_arity Date_le = 1"
| "clause_arity (In_list col n) = n"

fun clause_holds :: "sql_engine \<Rightarrow> clause \<Rightarrow> sqlval list \<Rightarrow> incident_row \<Rightarrow> bool" where
  "clause_holds E Date_ge ps r = list_all (\<lambda>p. sql_ge (sql_DATE E (date_time r)) p) ps"
| "clause_holds E Date_le ps r = list_all (\<lambda>p. sql_le (sql_DATE E (date_time r)) p) ps"
| "clause_holds E (In_list col n) ps r = list_ex (\<lambda>p. sql_equals E col (column_value col r) p) ps"

text \<open>
  The clauses are joined by \<open>AND\<close>; the bound parameters fill the placeholders from left
  to right.
\<close>

fun where_holds :: "sql_engine \<Rightarrow> clause list \<Rightarrow> sqlval list \<Rightarrow> incident_row \<Rightarrow> bool" where
  "where_holds E [] ps r = True"
| "where_holds E (c # cs) ps r =
     (clause_holds E c (take (clause_arity c) ps) r
      \<and> where_holds E cs (drop (clause_arity c) ps) r)"

text \<open>
  \<^verbatim>\<open>
  if (req.query.start_date) {
    whereClauses.push('date(date_time) >= ?');
    params.push(req.query.start_date);
  }
  ...
  if (req.query.code) {
    let codes = req.query.code.split(',').map((c) => c.trim());
    let placeholders = codes.map(() => '?').join(',');
    whereClauses.push(`code IN (${placeholders})`);
    params.push(...codes);
  }
  \<close>
\<close>

definition push_date ::
  "clause \<Rightarrow> string option \<Rightarrow> clause list \<times> sqlval list \<Rightarrow> clause list \<times> sqlval list" where
  "push_date c v wp =
     (case given v of
        Some s \<Rightarrow> (fst wp @ [c], snd wp @ [SqlText s])
      | None \<Rightarrow> wp)"

definition push_list ::
  "column \<Rightarrow> string option \<Rightarrow> clause list \<times> sqlval list \<Rightarrow> clause list \<times> sqlval list" where
  "push_list col v wp =
     (case given v of
        Some s \<Rightarrow>
          (let vals = filter_values s
           in (fst wp @ [In_list col (length vals)], snd wp @ map SqlText vals))
      | None \<Rightarrow> wp)"

definition incidents_where :: "incidents_request \<Rightarrow> clause list \<times> sqlval list" where
  "incidents_where q =
     push_list Col_neighborhood_number (q_neighborhood q)
       (push_list Col_police_grid (q_grid q)
         (push_list Col_code (q_code q)
           (push_date Date_le (q_end_date q)
             (push_date Date_ge (q_start_date q) ([], [])))))"

definition incidents_select :: string where
  "incidents_select =
     ''\<newline>      SELECT\<newline>        case_number,\<newline>        DATE(date_time) as date,\<newline>        TIME(date_time) as time,\<newline>        code,\<newline>        incident,\<newline>        police_grid,\<newline>        neighborhood_number,\<newline>        block\<newline>      FROM Incidents\<newline>    ''"

text \<open>
  \<^verbatim>\<open>
  if (whereClauses.length > 0) {
    query += ' WHERE ' + whereClauses.join(' AND ');
  }
  query += ' ORDER BY date_time DESC';
  let limit = req.query.limit ? parseInt(req.query.limit) : 1000;
  if (!Number.isFinite(limit) || limit <= 0) limit = 1000;
  query += ` LIMIT ${limit}`;
  \<close>
\<close>

definition incidents_query :: "(int \<Rightarrow> string) \<Rightarrow> incidents_request \<Rightarrow> string" where
  "incidents_query num_text q =
     (let whereClauses = fst (incidents_where q);
          query = incidents_select;
          query = (if length whereClauses > 0
                   then query @ '' WHERE '' @ js_join '' AND '' (map clause_sql whereClauses)
                   else query);
          query = query @ '' ORDER BY date_time DESC'';
          limit = effective_limit (q_limit q)
      in query @ '' LIMIT '' @ num_text limit)"

text \<open>
  What the engine does with the statement: the rows for which every clause holds,
  ordered by \<open>date_time\<close> from the largest down (rows with equal \<open>date_time\<close> in an order
  of the engine's choice, here the later inserted first), cut after \<open>limit\<close> rows; the
  select list gives each row as the columns of the answer.
\<close>

record incident_result =
  res_case_number :: sqlval
  res_date :: sqlval
  res_time :: sqlval
  res_code :: sqlval
  res_incident :: sqlval
  res_police_grid :: sqlval
  res_neighborhood_number :: sqlval
  res_block :: sqlval

definition select_rows ::
  "sql_engine \<Rightarrow> incident_row list \<Rightarrow> clause list \<Rightarrow> sqlval list \<Rightarrow> incident_row list" where
  "select_rows E db whereClauses params = filter (where_holds E whereClauses params) db"

definition order_by_date_time_desc :: "incident_row list \<Rightarrow> incident_row list" where
  "order_by_date_time_desc rows = rev (sort_key (\<lambda>r. sql_order_key (date_time r)) rows)"

definition select_list :: "sql_engine \<Rightarrow> incident_row \<Rightarrow> incident_result" where
  "select_list E r =
     \<lparr>res_case_number = case_number r,
      res_date = sql_DATE E (date_time r),
      res_time = sql_TIME E (date_time r),
      res_code = code r,
      res_incident = incident r,
      res_police_grid = police_grid r,
      res_neighborhood_number = neighborhood_number r,
      res_block = block r\<rparr>"

definition selected_incidents ::
  "sql_engine \<Rightarrow> incident_row list \<Rightarrow> incidents_request \<Rightarrow> incident_row list" where
  "selected_incidents E db q =
     take (nat (effective_limit (q_limit q)))
       (order_by_date_time_desc
          (select_rows E db (fst (incidents_where q)) (snd (incidents_where q))))"

datatype 'a reply = Json nat 'a | Txt nat string

text \<open>
  The handler: a rejected statement is caught and answered with status 500; otherwise
  the rows are copied field by field into the JSON answer with status 200.
\<close>

definition get_incidents ::
  "(int \<Rightarrow> string) \<Rightarrow> sql_engine \<Rightarrow> incident_row list \<Rightarrow> incidents_request
     \<Rightarrow> incident_result list reply" where
  "get_incidents num_text E db q =
     (if sql_rejects E (incidents_query num_text q) (snd (incidents_where q))
      then Txt 500 ''Error retrieving incidents''
      else Json 200 (map (select_list E) (selected_incidents E db q)))"

section \<open>The query service: PUT /new-incident and DELETE /remove-incident\<close>










section \<open>The query service: what a request asks for\<close>

text \<open>
  The filters of \<open>listIncidents\<close> in the words of the specification: a row qualifies when
  the date part of its \<open>date_time\<close> is at least the start date and at most the end date,
  and its code, police grid and neighborhood number are each among the values listed
  for them; a filter that is not given does not restrict. \<open>row_matches\<close> is compared
  below with what the clauses built by \<open>incidents_where\<close> mean.
\<close>

definition row_matches :: "sql_engine \<Rightarrow> incidents_request \<Rightarrow> incident_row \<Rightarrow> bool" where
  "row_matches E q r \<longleftrightarrow>
     (case given (q_start_date q) of
        Some s \<Rightarrow> sql_ge (sql_DATE E (date_time r)) (SqlText s) | None \<Rightarrow> True)
   \<and> (case given (q_end_date q) of
        Some s \<Rightarrow> sql_le (sql_DATE E (date_time r)) (SqlText s) | None \<Rightarrow> True)
   \<and> (case given (q_code q) of
        Some s \<Rightarrow> list_ex (\<lambda>c. sql_equals E Col_code (code r) (SqlText c)) (filter_values s)
      | None \<Rightarrow> True)
   \<and> (case given (q_grid q) of
        Some s \<Rightarrow>
          list_ex (\<lambda>c. sql_equals E Col_police_grid (police_grid r) (SqlText c)) (filter_values s)
      | None \<Rightarrow> True)
   \<and> (case given (q_neighborhood q) of
        Some s \<Rightarrow>
          list_ex (\<lambda>c. sql_equals E Col_neighborhood_number (neighborhood_number r) (SqlText c))
            (filter_values s)
      | None \<Rightarrow> True)"

text \<open>
  The shape of a filter parameter: whether it is given, and if so the number of its
  comma-separated elements. The clauses and the bound parameters that one query
  parameter contributes to the statement are named here, to state what the text of a
  statement depends on.
\<close>

definition shape :: "string option \<Rightarrow> nat option" where
  "shape v = map_option (\<lambda>s. length (split_comma s)) (given v)"

definition date_clause :: "clause \<Rightarrow> string option \<Rightarrow> clause list" where
  "date_clause c v = (case given v of Some s \<Rightarrow> [c] | None \<Rightarrow> [])"

definition list_clause :: "column \<Rightarrow> string option \<Rightarrow> clause list" where
  "list_clause col v = (case shape v of Some n \<Rightarrow> [In_list col n] | None \<Rightarrow> [])"

definition date_params :: "string option \<Rightarrow> sqlval list" where
  "date_params v = (case given v of Some s \<Rightarrow> [SqlText s] | None \<Rightarrow> [])"

definition list_params :: "string option \<Rightarrow> sqlval list" where
  "list_params v = (case given v of Some s \<Rightarrow> map SqlText (filter_values s) | None \<Rightarrow> [])"

definition no_filters :: incidents_request where
  "no_filters = \<lparr>q_start_date = None, q_end_date = None, q_code = None, q_grid = None,
     q_neighborhood = None, q_limit = None\<rparr>"

section \<open>The date and time functions of SQLite on ISO-8601 texts\<close>

text \<open>
  \<open>DATE(x)\<close> and \<open>TIME(x)\<close> are functions of SQLite. This is a model of what they do with
  a text of the forms \<open>YYYY-MM-DD\<close>, \<open>YYYY-MM-DD HH:MM\<close> and \<open>YYYY-MM-DD HH:MM:SS\<close>, where
  the date and the time are separated by any number of blanks or letters \<open>T\<close> and blanks
  may follow the time: the year has four digits, the month is 01 to 12, the day 01 to
  31, the hour 00 to 24, minute and second 00 to 59. The moment is then counted in days,
  so a day beyond the end of its month runs into the next month, hour 24 is hour 0 of
  the next day, and a result after the year 9999 is NULL. The date is given back as
  \<open>YYYY-MM-DD\<close>, the time as \<open>HH:MM:SS\<close>.

  The model is NULL on every other argument. That is SQLite's answer for NULL and for
  a text that is no time value; the other inputs that SQLite accepts (fractions of a
  second, a time zone suffix, a time without a date, a negative year, Julian day
  numbers, \<open>now\<close>) are not modelled.
\<close>

definition digit_char :: "nat \<Rightarrow> char" where
  "digit_char d = ''0123456789'' ! d"

fun pad :: "nat \<Rightarrow> nat \<Rightarrow> string" where
  "pad 0 v = []"
| "pad (Suc n) v = digit_char (v div 10 ^ n) # pad n (v mod 10 ^ n)"

definition render_date :: "nat \<times> nat \<times> nat \<Rightarrow> string" where
  "render_date ymd = (case ymd of (y, m, d) \<Rightarrow> pad 4 y @ ''-'' @ pad 2 m @ ''-'' @ pad 2 d)"

definition render_time :: "nat \<times> nat \<times> nat \<Rightarrow> string" where
  "render_time hms = (case hms of (h, m, s) \<Rightarrow> pad 2 h @ '':'' @ pad 2 m @ '':'' @ pad 2 s)"

fun read_digits :: "nat \<Rightarrow> string \<Rightarrow> (nat \<times> string) option" where
  "read_digits 0 s = Some (0, s)"
| "read_digits (Suc n) [] = None"
| "read_digits (Suc n) (c # rest) =
     (if is_digit c
      then map_option (\<lambda>(v, r). ((of_char c - 48) * 10 ^ n + v, r)) (read_digits n rest)
      else None)"

definition expect :: "char \<Rightarrow> string \<Rightarrow> string option" where
  "expect ch s = (case s of c # rest \<Rightarrow> if c = ch then Some rest else None | [] \<Rightarrow> None)"

definition in_range :: "nat \<Rightarrow> nat \<Rightarrow> nat \<times> string \<Rightarrow> (nat \<times> string) option" where
  "in_range lo hi vr = (if lo \<le> fst vr \<and> fst vr \<le> hi then Some vr else None)"

definition parse_ymd :: "string \<Rightarrow> ((nat \<times> nat \<times> nat) \<times> string) option" where
  "parse_ymd s =
     Option.bind (read_digits 4 s) (\<lambda>(y, s).
     Option.bind (expect CHR ''-'' s) (\<lambda>s.
     Option.bind (Option.bind (read_digits 2 s) (in_range 1 12)) (\<lambda>(m, s).
     Option.bind (expect CHR ''-'' s) (\<lambda>s.
     Option.bind (Option.bind (read_digits 2 s) (in_range 1 31)) (\<lambda>(d, s).
     Some ((y, m, d), s))))))"

definition parse_hms :: "string \<Rightarrow> ((nat \<times> nat \<times> nat) \<times> string) option" where
  "parse_hms s =
     Option.bind (Option.bind (read_digits 2 s) (in_range 0 24)) (\<lambda>(h, s).
     Option.bind (expect CHR '':'' s) (\<lambda>s.
     Option.bind (Option.bind (read_digits 2 s) (in_range 0 59)) (\<lambda>(m, s).
     case s of
       c # rest \<Rightarrow>
         if c = CHR '':''
         then Option.bind (Option.bind (read_digits 2 rest) (in_range 0 59)) (\<lambda>(sec, s).
                Some ((h, m, sec), s))
         else Some ((h, m, 0), s)
     | [] \<Rightarrow> Some ((h, m, 0), s))))"

definition is_c_space :: "char \<Rightarrow> bool" where
  "is_c_space c \<longleftrightarrow> c \<in> set [CHR 0x09, CHR 0x0A, CHR 0x0B, CHR 0x0C, CHR 0x0D, CHR 0x20]"

definition leap_year :: "nat \<Rightarrow> bool" where
  "leap_year y \<longleftrightarrow> y mod 4 = 0 \<and> (y mod 100 \<noteq> 0 \<or> y mod 400 = 0)"

definition days_in_month :: "nat \<Rightarrow> nat \<Rightarrow> nat" where
  "days_in_month y m =
     (if m = 2 then (if leap_year y then 29 else 28)
      else if m = 4 \<or> m = 6 \<or> m = 9 \<or> m = 11 then 30 else 31)"

text \<open>A day number of at most 32 in a month: the same day counted in the calendar.\<close>

definition roll_over :: "nat \<times> nat \<times> nat \<Rightarrow> nat \<times> nat \<times> nat" where
  "roll_over ymd =
     (case ymd of (y, m, d) \<Rightarrow>
        if d \<le> days_in_month y m then (y, m, d)
        else if m < 12 then (y, m + 1, d - days_in_month y m)
        else (y + 1, 1, d - days_in_month y m))"

definition sqlite_datetime ::
  "string \<Rightarrow> ((nat \<times> nat \<times> nat) \<times> (nat \<times> nat \<times> nat)) option" where
  "sqlite_datetime s =
     Option.bind (parse_ymd s) (\<lambda>((y, m, d), s).
     let s = dropWhile (\<lambda>c. is_c_space c \<or> c = CHR ''T'') s in
     Option.bind
       (case parse_hms s of
          Some (hms, s) \<Rightarrow> if dropWhile is_c_space s = [] then Some hms else None
        | None \<Rightarrow> if s = [] then Some (0, 0, 0) else None)
       (\<lambda>(h, mi, sec).
          let (y, m, d) = (if h = 24 then roll_over (y, m, d + 1) else roll_over (y, m, d));
              h = (if h = 24 then 0 else h)
          in if y \<le> 9999 then Some ((y, m, d), (h, mi, sec)) else None))"

definition sqlite_date :: "sqlval \<Rightarrow> sqlval" where
  "sqlite_date v =
     (case v of
        SqlText s \<Rightarrow>
          (case sqlite_datetime s of
             Some (ymd, hms) \<Rightarrow> SqlText (render_date ymd)
           | None \<Rightarrow> SqlNull)
      | _ \<Rightarrow> SqlNull)"

definition sqlite_time :: "sqlval \<Rightarrow> sqlval" where
  "sqlite_time v =
     (case v of
        SqlText s \<Rightarrow>
          (case sqlite_datetime s of
             Some (ymd, hms) \<Rightarrow> SqlText (render_time hms)
           | None \<Rightarrow> SqlNull)
      | _ \<Rightarrow> SqlNull)"

section \<open>An engine and a table for the examples\<close>

text \<open>
  An engine that rejects no statement, keeps an inserted value as it is bound, takes a
  stored integer as equal to the text of its decimal numeral and any other two values
  as equal when they are the same, and has the date and time functions above. The
  table holds two incidents; \<open>sample_body\<close> is the body of a third.
\<close>

definition sample_engine :: sql_engine where
  "sample_engine =
     \<lparr>sql_rejects = (\<lambda>text params. False),
      sql_equals = (\<lambda>col v p. case (v, p) of
                       (SqlInt n, SqlText s) \<Rightarrow> s = decimal n
                     | _ \<Rightarrow> v = p),
      sql_stored = (\<lambda>col p. p),
      sql_DATE = sqlite_date,
      sql_TIME = sqlite_time\<rparr>"

definition sample_row :: "string \<Rightarrow> string \<Rightarrow> int \<Rightarrow> incident_row" where
  "sample_row cn dt c =
     \<lparr>case_number = SqlText cn, date_time = SqlText dt, code = SqlInt c,
      incident = SqlText ''Theft'', police_grid = SqlInt 87, neighborhood_number = SqlInt 7,
      block = SqlText ''98X UNIVERSITY AV W''\<rparr>"

definition sample_db :: "incident_row list" where
  "sample_db =
     [sample_row ''A'' ''2024-01-02T10:00:00'' 1, sample_row ''B'' ''2024-01-01T09:00:00'' 2]"


section \<open>Properties of the map client\<close>

subsection \<open>Clamping to the St. Paul bounds\<close>

lemma clamp_in_bounds: "in_bounds (clampToStPaul x y)"
  by (simp add: in_bounds_def clampToStPaul_def bounds_nw_def bounds_se_def Let_def)

lemma clamp_fixes_in_bounds:
  "in_bounds \<lparr>lat = x, lng = y\<rparr> \<Longrightarrow> clampToStPaul x y = \<lparr>lat = x, lng = y\<rparr>"
  by (simp add: in_bounds_def clampToStPaul_def bounds_nw_def bounds_se_def Let_def)

lemma location_go_hit:
  assumes "js_trim query \<noteq> []"
    and "geocode (js_trim query) = FirstMatch (Fin x) (Fin y)"
  shows "handleLocationGo geocode query st = setView (clampToStPaul x y) 15 st"
  using assms by (simp add: handleLocationGo_def Let_def)

text \<open>
  Claim C10. For every latitude and longitude, \<open>clampToStPaul\<close> returns a point with
  latitude in [44.883658, 45.008206] and longitude in [-93.217977, -92.993787]; a point
  already inside these bounds is returned unchanged, so clamping twice is clamping
  once. A location search whose first match has finite coordinates moves the view to
  the clamped point at zoom 15 and alerts nothing; when the match lies outside the
  bounds, the new centre is inside them and is not the place found. (The only call
  passes numbers that \<open>Number.isFinite\<close> has accepted.)
\<close>

theorem clampToStPaul_within_bounds:
  "44.883658 \<le> lat (clampToStPaul x y) \<and> lat (clampToStPaul x y) \<le> 45.008206
   \<and> -93.217977 \<le> lng (clampToStPaul x y) \<and> lng (clampToStPaul x y) \<le> -92.993787
   \<and> (44.883658 \<le> x \<and> x \<le> 45.008206 \<and> -93.217977 \<le> y \<and> y \<le> -92.993787
        \<longrightarrow> clampToStPaul x y = \<lparr>lat = x, lng = y\<rparr>)
   \<and> clampToStPaul (lat (clampToStPaul x y)) (lng (clampToStPaul x y)) = clampToStPaul x y
   \<and> (js_trim query \<noteq> [] \<and> geocode (js_trim query) = FirstMatch (Fin x) (Fin y) \<longrightarrow>
        center (handleLocationGo geocode query st) = clampToStPaul x y
        \<and> zoom (handleLocationGo geocode query st) = 15
        \<and> alerts (handleLocationGo geocode query st) = alerts st
        \<and> in_bounds (center (handleLocationGo geocode query st))
        \<and> (\<not> in_bounds \<lparr>lat = x, lng = y\<rparr> \<longrightarrow>
              center (handleLocationGo geocode query st) \<noteq> \<lparr>lat = x, lng = y\<rparr>))"
proof -
  have inb: "in_bounds (clampToStPaul x y)" by (rule clamp_in_bounds)
  have range: "44.883658 \<le> lat (clampToStPaul x y) \<and> lat (clampToStPaul x y) \<le> 45.008206
      \<and> -93.217977 \<le> lng (clampToStPaul x y) \<and> lng (clampToStPaul x y) \<le> -92.993787"
    using inb by (simp add: in_bounds_def bounds_nw_def bounds_se_def)
  have fixed: "44.883658 \<le> x \<and> x \<le> 45.008206 \<and> -93.217977 \<le> y \<and> y \<le> -92.993787
      \<longrightarrow> clampToStPaul x y = \<lparr>lat = x, lng = y\<rparr>"
    using clamp_fixes_in_bounds[of x y]
    by (simp add: in_bounds_def bounds_nw_def bounds_se_def)
  have idem: "clampToStPaul (lat (clampToStPaul x y)) (lng (clampToStPaul x y))
      = clampToStPaul x y"
    by (simp add: clampToStPaul_def bounds_nw_def bounds_se_def Let_def)
  have go: "js_trim query \<noteq> [] \<and> geocode (js_trim query) = FirstMatch (Fin x) (Fin y) \<longrightarrow>
        center (handleLocationGo geocode query st) = clampToStPaul x y
        \<and> zoom (handleLocationGo geocode query st) = 15
        \<and> alerts (handleLocationGo geocode query st) = alerts st
        \<and> in_bounds (center (handleLocationGo geocode query st))
        \<and> (\<not> in_bounds \<lparr>lat = x, lng = y\<rparr> \<longrightarrow>
              center (handleLocationGo geocode query st) \<noteq> \<lparr>lat = x, lng = y\<rparr>)"
  proof (intro impI, elim conjE)
    assume q: "js_trim query \<noteq> []" "geocode (js_trim query) = FirstMatch (Fin x) (Fin y)"
    have h: "handleLocationGo geocode query st = setView (clampToStPaul x y) 15 st"
      using q by (rule location_go_hit[of query geocode x y st])
    have c: "center (handleLocationGo geocode query st) = clampToStPaul x y"
      by (simp add: h setView_def)
    have "\<not> in_bounds \<lparr>lat = x, lng = y\<rparr> \<Longrightarrow> clampToStPaul x y \<noteq> \<lparr>lat = x, lng = y\<rparr>"
      using inb by auto
    then show "center (handleLocationGo geocode query st) = clampToStPaul x y
        \<and> zoom (handleLocationGo geocode query st) = 15
        \<and> alerts (handleLocationGo geocode query st) = alerts st
        \<and> in_bounds (center (handleLocationGo geocode query st))
        \<and> (\<not> in_bounds \<lparr>lat = x, lng = y\<rparr> \<longrightarrow>
              center (handleLocationGo geocode query st) \<noteq> \<lparr>lat = x, lng = y\<rparr>)"
      using c inb by (simp add: h setView_def)
  qed
  from range fixed idem go show ?thesis by blast
qed

theorem clampToStPaul_within_bounds_witness:
  "clampToStPaul 44.95 (-93.1) = \<lparr>lat = 44.95, lng = -93.1\<rparr>
   \<and> js_trim ''  Chicago '' = ''Chicago''
   \<and> \<not> in_bounds \<lparr>lat = 41.88, lng = -87.63\<rparr>
   \<and> center (handleLocationGo (\<lambda>q. FirstMatch (Fin 41.88) (Fin (-87.63))) ''  Chicago ''
        initial_client) = \<lparr>lat = 44.883658, lng = -92.993787\<rparr>
   \<and> center (handleLocationGo (\<lambda>q. FirstMatch (Fin 41.88) (Fin (-87.63))) ''  Chicago ''
        initial_client) \<noteq> \<lparr>lat = 41.88, lng = -87.63\<rparr>"
proof -
  have t: "js_trim ''  Chicago '' = ''Chicago''"
    by (simp add: js_trim_def is_js_space_def)
  have o: "\<not> in_bounds \<lparr>lat = 41.88, lng = -87.63\<rparr>"
    by (simp add: in_bounds_def bounds_nw_def bounds_se_def)
  have c: "clampToStPaul 41.88 (-87.63) = \<lparr>lat = 44.883658, lng = -92.993787\<rparr>"
    by (simp add: clampToStPaul_def bounds_nw_def bounds_se_def Let_def)
  show ?thesis
    using clampToStPaul_within_bounds[of "44.95" "-93.1"]
      clampToStPaul_within_bounds[of "41.88" "-87.63" "''  Chicago ''"
        "\<lambda>q. FirstMatch (Fin 41.88) (Fin (-87.63))" initial_client]
      t o c
    by simp
qed

subsection \<open>The address sent to the geocoder\<close>

lemma not_digit_X: "\<not> is_digit CHR ''X''"
  by (simp add: is_digit_def less_eq_char_def)

lemma expand_digits_X:
  "\<forall>d\<in>set ds. is_digit d \<Longrightarrow>
     expand_from True (ds @ CHR ''X'' # rest) = ds @ CHR ''0'' # expand_from False rest"
  by (induction ds) (auto simp: not_digit_X)

lemma expand_no_X: "cs = [] \<or> hd cs \<noteq> CHR ''X'' \<Longrightarrow> expand_from b cs = expand_from b' cs"
  by (cases cs) auto

lemma replace_expand: "replace_digits_X s = expand_from False s"
proof (induction s rule: replace_digits_X.induct)
  case 1
  then show ?case by simp
next
  case (2 c cs)
  show ?case
  proof (cases "is_digit c")
    case False
    with 2 show ?thesis by simp
  next
    case dig: True
    show ?thesis
    proof (cases "dropWhile is_digit cs")
      case Nil
      then have "cs = [] \<or> hd cs \<noteq> CHR ''X''"
        by (cases cs) (auto simp: not_digit_X split: if_splits)
      then have e: "expand_from True cs = expand_from False cs" by (rule expand_no_X)
      have "replace_digits_X (c # cs) = c # replace_digits_X cs"
        using dig by (simp add: Nil)
      moreover have "replace_digits_X cs = expand_from False cs"
        using "2.IH" dig Nil by blast
      ultimately show ?thesis using e dig by simp
    next
      case (Cons x rest)
      show ?thesis
      proof (cases "x = CHR ''X''")
        case True
        have cs: "cs = takeWhile is_digit cs @ CHR ''X'' # rest"
          using Cons True by (metis takeWhile_dropWhile_id)
        have "expand_from True cs = takeWhile is_digit cs @ CHR ''0'' # expand_from False rest"
          using expand_digits_X[of "takeWhile is_digit cs" rest] cs
          by (metis set_takeWhileD)
        moreover have "replace_digits_X (c # cs)
            = (c # takeWhile is_digit cs) @ ''0'' @ replace_digits_X rest"
          using dig True by (simp add: Cons)
        moreover have "replace_digits_X rest = expand_from False rest"
          using "2.IH" dig Cons True by blast
        ultimately show ?thesis using dig by simp
      next
        case False
        have "cs = [] \<or> hd cs \<noteq> CHR ''X''"
          using Cons False by (cases cs) (auto simp: not_digit_X split: if_splits)
        then have e: "expand_from True cs = expand_from False cs" by (rule expand_no_X)
        have "replace_digits_X (c # cs) = c # replace_digits_X cs"
          using dig False by (simp add: Cons)
        moreover have "replace_digits_X cs = expand_from False cs"
          using "2.IH" dig Cons False by blast
        ultimately show ?thesis using e dig by simp
      qed
    qed
  qed
qed

lemma expand_length: "length (expand_from d s) = length s"
  by (induction s arbitrary: d) auto

lemma expand_nth:
  "i < length s \<Longrightarrow>
   expand_from d s ! i =
     (if s ! i = CHR ''X'' \<and> (if i = 0 then d else is_digit (s ! (i - 1)))
      then CHR ''0'' else s ! i)"
proof (induction s arbitrary: d i)
  case Nil
  then show ?case by simp
next
  case (Cons c cs)
  show ?case
  proof (cases i)
    case 0
    then show ?thesis by simp
  next
    case (Suc j)
    with Cons.prems have "j < length cs" by simp
    from Cons.IH[OF this, of "is_digit c"] Suc show ?thesis
      by (cases j) auto
  qed
qed

lemma show_incident_no_hit:
  assumes "inc_block inc = Some b"
    and "\<forall>x y. geocode (incident_address b) \<noteq> FirstMatch (Fin x) (Fin y)"
  shows "crimeMarker (showIncidentOnMap geocode inc st) = None
     \<and> (\<exists>msg. alerts (showIncidentOnMap geocode inc st) = alerts st @ [msg])
     \<and> center (showIncidentOnMap geocode inc st) = center st
     \<and> zoom (showIncidentOnMap geocode inc st) = zoom st"
proof (cases "geocode (incident_address b)")
  case (Thrown msg)
  with assms(1) show ?thesis by (simp add: showIncidentOnMap_def alert_def)
next
  case NoMatch
  with assms(1) show ?thesis by (simp add: showIncidentOnMap_def alert_def)
next
  case (FirstMatch u v)
  with assms(2) have "u = NonFin \<or> v = NonFin"
    by (cases u; cases v) auto
  with FirstMatch assms(1) show ?thesis
    by (cases u; cases v) (auto simp: showIncidentOnMap_def alert_def)
qed

lemma show_incident_hit:
  assumes "inc_block inc = Some b"
    and "geocode (incident_address b) = FirstMatch (Fin x) (Fin y)"
  shows "crimeMarker (showIncidentOnMap geocode inc st) = Some \<lparr>lat = x, lng = y\<rparr>
     \<and> alerts (showIncidentOnMap geocode inc st) = alerts st
     \<and> center (showIncidentOnMap geocode inc st) = \<lparr>lat = x, lng = y\<rparr>
     \<and> zoom (showIncidentOnMap geocode inc st) = 16"
  using assms by (simp add: showIncidentOnMap_def setView_def)

lemma show_incident_asks_address:
  assumes "inc_block inc = Some b"
    and "geocode (incident_address b) = geocode' (incident_address b)"
  shows "showIncidentOnMap geocode inc st = showIncidentOnMap geocode' inc st"
  using assms by (simp add: showIncidentOnMap_def)

text \<open>
  Claim C9, as the code has it. The text replaced into the address has the length of
  the block, and at every position it holds the character of the block, except that an
  \<open>X\<close> standing immediately after a digit of the block has become \<open>0\<close>; an \<open>X\<close> that
  follows another \<open>X\<close> is kept. The address is that text followed by
  \<open>, St. Paul, MN\<close>, and the outcome of the handler depends on the geocoder only
  through its answer for that address. When the answer is not a first match with two
  finite coordinates, one message is alerted, no marker is placed and the view is left
  alone; when it is, the marker and the view go to the match, at zoom 16.
\<close>

theorem incident_address_zeroes_X_after_digit:
  "length (replace_digits_X b) = length b
   \<and> (\<forall>i < length b. replace_digits_X b ! i =
         (if b ! i = CHR ''X'' \<and> 0 < i \<and> is_digit (b ! (i - 1)) then CHR ''0'' else b ! i))
   \<and> incident_address b = replace_digits_X b @ '', St. Paul, MN''
   \<and> (inc_block inc = Some b \<longrightarrow>
        (geocode (incident_address b) = geocode' (incident_address b) \<longrightarrow>
           showIncidentOnMap geocode inc st = showIncidentOnMap geocode' inc st)
      \<and> ((\<forall>x y. geocode (incident_address b) \<noteq> FirstMatch (Fin x) (Fin y)) \<longrightarrow>
           crimeMarker (showIncidentOnMap geocode inc st) = None
         \<and> (\<exists>msg. alerts (showIncidentOnMap geocode inc st) = alerts st @ [msg])
         \<and> center (showIncidentOnMap geocode inc st) = center st
         \<and> zoom (showIncidentOnMap geocode inc st) = zoom st)
      \<and> (\<forall>x y. geocode (incident_address b) = FirstMatch (Fin x) (Fin y) \<longrightarrow>
           crimeMarker (showIncidentOnMap geocode inc st) = Some \<lparr>lat = x, lng = y\<rparr>
         \<and> alerts (showIncidentOnMap geocode inc st) = alerts st
         \<and> center (showIncidentOnMap geocode inc st) = \<lparr>lat = x, lng = y\<rparr>
         \<and> zoom (showIncidentOnMap geocode inc st) = 16))"
proof -
  have len: "length (replace_digits_X b) = length b"
    by (simp add: replace_expand expand_length)
  have nth: "\<forall>i < length b. replace_digits_X b ! i =
         (if b ! i = CHR ''X'' \<and> 0 < i \<and> is_digit (b ! (i - 1)) then CHR ''0'' else b ! i)"
    by (auto simp: replace_expand expand_nth)
  have addr: "incident_address b = replace_digits_X b @ '', St. Paul, MN''"
    by (simp add: incident_address_def)
  have handler: "inc_block inc = Some b \<longrightarrow>
        (geocode (incident_address b) = geocode' (incident_address b) \<longrightarrow>
           showIncidentOnMap geocode inc st = showIncidentOnMap geocode' inc st)
      \<and> ((\<forall>x y. geocode (incident_address b) \<noteq> FirstMatch (Fin x) (Fin y)) \<longrightarrow>
           crimeMarker (showIncidentOnMap geocode inc st) = None
         \<and> (\<exists>msg. alerts (showIncidentOnMap geocode inc st) = alerts st @ [msg])
         \<and> center (showIncidentOnMap geocode inc st) = center st
         \<and> zoom (showIncidentOnMap geocode inc st) = zoom st)
      \<and> (\<forall>x y. geocode (incident_address b) = FirstMatch (Fin x) (Fin y) \<longrightarrow>
           crimeMarker (showIncidentOnMap geocode inc st) = Some \<lparr>lat = x, lng = y\<rparr>
         \<and> alerts (showIncidentOnMap geocode inc st) = alerts st
         \<and> center (showIncidentOnMap geocode inc st) = \<lparr>lat = x, lng = y\<rparr>
         \<and> zoom (showIncidentOnMap geocode inc st) = 16)"
    using show_incident_no_hit[of inc b geocode st]
      show_incident_hit[of inc b geocode _ _ st]
      show_incident_asks_address[of inc b geocode geocode' st]
    by blast
  from len nth addr handler show ?thesis by blast
qed

theorem incident_address_zeroes_X_after_digit_witness:
  "incident_address ''98X UNIVERSITY AV W'' = ''980 UNIVERSITY AV W, St. Paul, MN''
   \<and> replace_digits_X ''98X UNIVERSITY AV W'' ! 2 = CHR ''0''
   \<and> replace_digits_X ''98X UNIVERSITY AV W'' ! 4 = CHR ''U''
   \<and> crimeMarker (showIncidentOnMap (\<lambda>q. NoMatch)
        \<lparr>inc_block = Some ''98X UNIVERSITY AV W'', inc_neighborhood_number = Fin 8\<rparr>
        (initial_client\<lparr>crimeMarker := Some \<lparr>lat = 44.95, lng = -93.1\<rparr>\<rparr>)) = None
   \<and> crimeMarker (showIncidentOnMap (\<lambda>q. FirstMatch (Fin 44.95) (Fin (-93.1)))
        \<lparr>inc_block = Some ''98X UNIVERSITY AV W'', inc_neighborhood_number = Fin 8\<rparr>
        initial_client) = Some \<lparr>lat = 44.95, lng = -93.1\<rparr>"
proof -
  have d: "is_digit CHR ''8''" "''98X UNIVERSITY AV W'' ! 2 = CHR ''X''"
    "''98X UNIVERSITY AV W'' ! 4 = CHR ''U''" "''98X UNIVERSITY AV W'' ! 1 = CHR ''8''"
    by (simp_all add: is_digit_def less_eq_char_def)
  have a: "replace_digits_X ''98X UNIVERSITY AV W'' = ''980 UNIVERSITY AV W''"
    by (simp add: is_digit_def less_eq_char_def)
  show ?thesis
    using incident_address_zeroes_X_after_digit[of "''98X UNIVERSITY AV W''"
        "\<lparr>inc_block = Some ''98X UNIVERSITY AV W'', inc_neighborhood_number = Fin 8\<rparr>"
        "\<lambda>q. NoMatch" "\<lambda>q. NoMatch"
        "initial_client\<lparr>crimeMarker := Some \<lparr>lat = 44.95, lng = -93.1\<rparr>\<rparr>"]
      incident_address_zeroes_X_after_digit[of "''98X UNIVERSITY AV W''"
        "\<lparr>inc_block = Some ''98X UNIVERSITY AV W'', inc_neighborhood_number = Fin 8\<rparr>"
        "\<lambda>q. FirstMatch (Fin 44.95) (Fin (-93.1))" "\<lambda>q. FirstMatch (Fin 44.95) (Fin (-93.1))"
        initial_client]
      d a
    by simp
qed

text \<open>
  The claim as it is worded, that every \<open>X\<close> after digits is replaced and a concrete
  numeric address results, fails on a block with two placeholder letters: only the
  first \<open>X\<close> of \<open>7XX\<close> stands immediately after a digit, and the address sent still
  holds a digit followed by \<open>X\<close>.
\<close>

theorem incident_address_keeps_second_X:
  "incident_address ''7XX 6 ST E'' = ''70X 6 ST E, St. Paul, MN''
   \<and> replace_digits_X ''7XX 6 ST E'' ! 2 = CHR ''X''
   \<and> is_digit (replace_digits_X ''7XX 6 ST E'' ! 1)"
  by (simp add: incident_address_def is_digit_def less_eq_char_def)

subsection \<open>Neighborhood circles\<close>

lemma counts_get_update:
  "counts_get (AList.update k v cs) n = (if n = k then v else counts_get cs n)"
  by (simp add: counts_get_def update_conv')

lemma counts_get_step:
  "counts_get (count_step cs inc) n =
     counts_get cs n + (if inc_neighborhood_number inc = Fin n then 1 else 0)"
  by (cases "inc_neighborhood_number inc") (auto simp: counts_get_update)

lemma counts_get_foldl:
  "counts_get (foldl count_step cs incs) n = counts_get cs n + incident_count incs n"
  by (induction incs arbitrary: cs)
     (auto simp: incident_count_def counts_get_step simp del: count_step.simps)

lemma counts_get_count_incidents:
  "counts_get (count_incidents incs) n = incident_count incs n"
proof -
  have "counts_get [] n = 0" by (simp add: counts_get_def)
  then show ?thesis by (simp add: count_incidents_def counts_get_foldl)
qed

lemma fold_max_ge: "(a::nat) \<le> fold max xs a"
  by (induction xs arbitrary: a) (auto intro: order_trans[OF max.cobounded2])

lemma fold_max_mem: "x \<in> set xs \<Longrightarrow> (x::nat) \<le> fold max xs a"
proof (induction xs arbitrary: a)
  case Nil
  then show ?case by simp
next
  case (Cons y ys)
  show ?case
  proof (cases "x = y")
    case True
    have "max y a \<le> fold max ys (max y a)" by (rule fold_max_ge)
    then show ?thesis using True by simp
  next
    case False
    with Cons show ?thesis by simp
  qed
qed

lemma fold_max_cases: "fold max xs a = (a::nat) \<or> fold max xs a \<in> set xs"
proof (induction xs arbitrary: a)
  case Nil
  then show ?case by simp
next
  case (Cons y ys)
  from Cons[of "max y a"] show ?case by (auto simp: max_def split: if_splits)
qed

lemma maxCount_pos: "1 \<le> maxCount cs"
  unfolding maxCount_def by (rule fold_max_ge)

lemma counts_get_le_maxCount: "counts_get cs n \<le> maxCount cs"
proof (cases "map_of cs n")
  case None
  then show ?thesis by (simp add: counts_get_def)
next
  case (Some c)
  then have "c \<in> set (map snd cs)"
    by (metis map_of_SomeD image_eqI snd_conv set_map)
  then show ?thesis using Some
    by (simp add: counts_get_def maxCount_def fold_max_mem)
qed

lemma distinct_count_step:
  "distinct (map fst cs) \<Longrightarrow> distinct (map fst (count_step cs inc))"
  by (cases "inc_neighborhood_number inc") (simp_all add: distinct_update)

lemma distinct_foldl_count:
  "distinct (map fst cs) \<Longrightarrow> distinct (map fst (foldl count_step cs incs))"
  by (induction incs arbitrary: cs) (simp_all add: distinct_count_step del: count_step.simps)

lemma maxCount_attained:
  "maxCount (count_incidents incs) = 1
   \<or> (\<exists>n. incident_count incs n = maxCount (count_incidents incs))"
proof -
  let ?cs = "count_incidents incs"
  have d: "distinct (map fst ?cs)"
    by (simp add: count_incidents_def distinct_foldl_count)
  from fold_max_cases[of "map snd ?cs" 1]
  show ?thesis
  proof
    assume "fold max (map snd ?cs) 1 = 1"
    then show ?thesis by (simp add: maxCount_def)
  next
    assume "fold max (map snd ?cs) 1 \<in> set (map snd ?cs)"
    then obtain k where "(k, maxCount ?cs) \<in> set ?cs"
      by (auto simp: maxCount_def)
    with d have "map_of ?cs k = Some (maxCount ?cs)" by simp
    then have "counts_get ?cs k = maxCount ?cs" by (simp add: counts_get_def)
    then show ?thesis by (auto simp: counts_get_count_incidents)
  qed
qed

lemma radius_mono: "0 < m \<Longrightarrow> a < b \<Longrightarrow> circle_radius a m < circle_radius b m"
  by (simp add: circle_radius_def divide_strict_right_mono)

lemma radius_bounds:
  "0 < m \<Longrightarrow> a \<le> m \<Longrightarrow> 8 \<le> circle_radius a m \<and> circle_radius a m \<le> 33"
  by (simp add: circle_radius_def)

lemma circle_fields:
  assumes "c \<in> set (updateNeighborhoodCircles incidents)"
  shows "popup_count c = incident_count incidents (circle_id c)
     \<and> radius c = circle_radius (popup_count c) (maxCount (count_incidents incidents))"
  using assms
  by (auto simp: updateNeighborhoodCircles_def Let_def counts_get_count_incidents)

lemma example_counts:
  "count_incidents (replicate 10 (in_neighborhood 1) @ replicate 5 (in_neighborhood 2))
     = [(1, 10), (2, 5)]"
  by (simp add: count_incidents_def in_neighborhood_def counts_get_def eval_nat_numeral)

lemma example_radii:
  "map radius (take 3 (updateNeighborhoodCircles
      (replicate 10 (in_neighborhood 1) @ replicate 5 (in_neighborhood 2))))
     = [33, 8 + 25 * sqrt (1 / 2), 8]"
  by (simp add: updateNeighborhoodCircles_def example_counts maxCount_def
      neighborhood_locations_def counts_get_def circle_radius_def)

text \<open>
  Claim C7. After a refresh every predefined neighborhood has one circle, in the order
  of the ids 1 to 17. Its count is the number of loaded incidents of that neighborhood,
  its radius is \<open>8 + 25 * sqrt (count / maxCount)\<close>, where \<open>maxCount\<close> is the largest
  count over all neighborhood numbers among the incidents, and at least 1. Hence, over
  the circles of one refresh, a larger count gives a strictly larger radius, a count of
  0 gives the radius 8, and every radius lies between 8 and 33. With ten incidents in
  neighborhood 1, five in neighborhood 2 and none in neighborhood 3 the radii are
  strictly decreasing from the first circle to the third, and the third is positive.
\<close>

theorem circle_radius_grows_with_count:
  "(\<forall>c \<in> set (updateNeighborhoodCircles incidents).
    \<forall>d \<in> set (updateNeighborhoodCircles incidents).
       popup_count c = incident_count incidents (circle_id c)
     \<and> radius c = 8 + 25 * sqrt (real (popup_count c)
                                  / real (maxCount (count_incidents incidents)))
     \<and> (popup_count c < popup_count d \<longrightarrow> radius c < radius d)
     \<and> (popup_count c = 0 \<longrightarrow> radius c = 8)
     \<and> 8 \<le> radius c \<and> radius c \<le> 33)
   \<and> map circle_id (updateNeighborhoodCircles incidents) = map real [1..<18]
   \<and> 1 \<le> maxCount (count_incidents incidents)
   \<and> (\<forall>n. incident_count incidents n \<le> maxCount (count_incidents incidents))
   \<and> (maxCount (count_incidents incidents) = 1
       \<or> (\<exists>n. incident_count incidents n = maxCount (count_incidents incidents)))
   \<and> (let cs = updateNeighborhoodCircles
                  (replicate 10 (in_neighborhood 1) @ replicate 5 (in_neighborhood 2))
      in radius (cs ! 1) < radius (cs ! 0) \<and> radius (cs ! 2) < radius (cs ! 1)
         \<and> 0 < radius (cs ! 2))"
proof -
  let ?m = "maxCount (count_incidents incidents)"
  have pos: "1 \<le> ?m" by (rule maxCount_pos)
  have le: "\<forall>n. incident_count incidents n \<le> ?m"
    using counts_get_le_maxCount[of "count_incidents incidents"]
    by (simp add: counts_get_count_incidents)
  have circles: "\<forall>c \<in> set (updateNeighborhoodCircles incidents).
    \<forall>d \<in> set (updateNeighborhoodCircles incidents).
       popup_count c = incident_count incidents (circle_id c)
     \<and> radius c = 8 + 25 * sqrt (real (popup_count c) / real ?m)
     \<and> (popup_count c < popup_count d \<longrightarrow> radius c < radius d)
     \<and> (popup_count c = 0 \<longrightarrow> radius c = 8)
     \<and> 8 \<le> radius c \<and> radius c \<le> 33"
  proof (intro ballI)
    fix c d
    assume c: "c \<in> set (updateNeighborhoodCircles incidents)"
      and d: "d \<in> set (updateNeighborhoodCircles incidents)"
    note fc = circle_fields[OF c] and fd = circle_fields[OF d]
    have m: "0 < ?m" using pos by simp
    have cle: "popup_count c \<le> ?m" using fc le by simp
    have mono: "popup_count c < popup_count d \<longrightarrow> radius c < radius d"
      using fc fd radius_mono[OF m] by simp
    have zero: "popup_count c = 0 \<longrightarrow> radius c = 8"
      using fc by (simp add: circle_radius_def)
    from fc mono zero radius_bounds[OF m cle]
    show "popup_count c = incident_count incidents (circle_id c)
     \<and> radius c = 8 + 25 * sqrt (real (popup_count c) / real ?m)
     \<and> (popup_count c < popup_count d \<longrightarrow> radius c < radius d)
     \<and> (popup_count c = 0 \<longrightarrow> radius c = 8)
     \<and> 8 \<le> radius c \<and> radius c \<le> 33"
      by (simp add: circle_radius_def)
  qed
  have ids: "map circle_id (updateNeighborhoodCircles incidents) = map real [1..<18]"
    by (simp add: updateNeighborhoodCircles_def Let_def neighborhood_locations_def
        upt_rec[of _ "numeral _"])
  have half: "sqrt (1 / 2) < 1" "0 < sqrt (1 / 2)" by simp_all
  have ex: "let cs = updateNeighborhoodCircles
                  (replicate 10 (in_neighborhood 1) @ replicate 5 (in_neighborhood 2))
      in radius (cs ! 1) < radius (cs ! 0) \<and> radius (cs ! 2) < radius (cs ! 1)
         \<and> 0 < radius (cs ! 2)"
  proof -
    let ?cs = "updateNeighborhoodCircles
                  (replicate 10 (in_neighborhood 1) @ replicate 5 (in_neighborhood 2))"
    have l: "3 \<le> length ?cs"
      by (simp add: updateNeighborhoodCircles_def Let_def neighborhood_locations_def)
    have "map radius (take 3 ?cs) ! 0 = radius (?cs ! 0)"
      "map radius (take 3 ?cs) ! 1 = radius (?cs ! 1)"
      "map radius (take 3 ?cs) ! 2 = radius (?cs ! 2)"
      using l by simp_all
    then have "radius (?cs ! 0) = 33" "radius (?cs ! 1) = 8 + 25 * sqrt (1 / 2)"
      "radius (?cs ! 2) = 8"
      by (simp_all add: example_radii)
    with half show ?thesis by (simp add: Let_def)
  qed
  from circles ids pos le maxCount_attained[of incidents] ex show ?thesis by blast
qed

theorem circle_radius_grows_with_count_witness:
  "popup_count (updateNeighborhoodCircles
      (replicate 10 (in_neighborhood 1) @ replicate 5 (in_neighborhood 2)) ! 0) = 10
   \<and> popup_count (updateNeighborhoodCircles
      (replicate 10 (in_neighborhood 1) @ replicate 5 (in_neighborhood 2)) ! 1) = 5
   \<and> radius (updateNeighborhoodCircles
      (replicate 10 (in_neighborhood 1) @ replicate 5 (in_neighborhood 2)) ! 1)
     < radius (updateNeighborhoodCircles
      (replicate 10 (in_neighborhood 1) @ replicate 5 (in_neighborhood 2)) ! 0)"
proof -
  let ?incs = "replicate 10 (in_neighborhood 1) @ replicate 5 (in_neighborhood 2)"
  let ?cs = "updateNeighborhoodCircles ?incs"
  have l: "length ?cs = 17"
    by (simp add: updateNeighborhoodCircles_def Let_def neighborhood_locations_def)
  have m0: "?cs ! 0 \<in> set ?cs" and m1: "?cs ! 1 \<in> set ?cs"
    using l nth_mem[of 0 ?cs] nth_mem[of 1 ?cs] by simp_all
  have p: "popup_count (?cs ! 0) = 10" "popup_count (?cs ! 1) = 5"
    by (simp_all add: updateNeighborhoodCircles_def example_counts maxCount_def
        neighborhood_locations_def counts_get_def)
  from circle_radius_grows_with_count[of ?incs] m0 m1
  have "popup_count (?cs ! 1) < popup_count (?cs ! 0) \<longrightarrow> radius (?cs ! 1) < radius (?cs ! 0)"
    by blast
  with p show ?thesis by simp
qed

section \<open>Properties of the query service\<close>

subsection \<open>The limit\<close>





lemma incidents_where_limit [simp]: "incidents_where (q\<lparr>q_limit := l\<rparr>) = incidents_where q"
  by (simp add: incidents_where_def)



lemma incidents_query_ends:
  "\<exists>pre. incidents_query num_text q = pre @ '' LIMIT '' @ num_text (effective_limit (q_limit q))"
  by (simp add: incidents_query_def Let_def)

lemma effective_limit_pos: "0 < effective_limit l"
  by (auto simp: effective_limit_def Let_def split: option.splits parsed_int.splits)



subsection \<open>The text of the statements\<close>

lemma split_comma_nonempty: "split_comma s \<noteq> []"
  by (induction s) (auto split: list.splits)

lemma placeholders_length: "placeholders vs = placeholders (replicate (length vs) [])"
proof -
  have "map (\<lambda>v. ''?'') vs = map (\<lambda>v. ''?'') (replicate (length vs) ([]::string))"
    by (simp add: map_replicate_const)
  then show ?thesis by (simp add: placeholders_def)
qed

lemma length_filter_values: "length (filter_values s) = length (split_comma s)"
  by (simp add: filter_values_def)

lemma shape_given: "shape v = None \<longleftrightarrow> given v = None"
  by (simp add: shape_def)

lemma codes_text_shape:
  "fst (codes_statement c) =
     ''SELECT code, incident_type FROM Codes''
     @ (case shape c of
          Some n \<Rightarrow> '' WHERE code IN ('' @ placeholders (replicate n []) @ '')''
        | None \<Rightarrow> [])
     @ '' ORDER BY code''"
  using placeholders_length[of "filter_values s" for s]
  by (auto simp: codes_statement_def shape_def Let_def length_filter_values split: option.splits)

lemma neighborhoods_text_shape:
  "fst (neighborhoods_statement c) =
     ''SELECT neighborhood_number, neighborhood_name FROM Neighborhoods''
     @ (case shape c of
          Some n \<Rightarrow> '' WHERE neighborhood_number IN ('' @ placeholders (replicate n []) @ '')''
        | None \<Rightarrow> [])
     @ '' ORDER BY neighborhood_number''"
  using placeholders_length[of "filter_values s" for s]
  by (auto simp: neighborhoods_statement_def shape_def Let_def length_filter_values split: option.splits)

lemma codes_params:
  "snd (codes_statement c) =
     (case given c of Some s \<Rightarrow> map SqlText (filter_values s) | None \<Rightarrow> [])"
  by (auto simp: codes_statement_def Let_def split: option.splits)

lemma neighborhoods_params:
  "snd (neighborhoods_statement c) =
     (case given c of Some s \<Rightarrow> map SqlText (filter_values s) | None \<Rightarrow> [])"
  by (auto simp: neighborhoods_statement_def Let_def split: option.splits)

lemma push_date_eq: "push_date c v wp = (fst wp @ date_clause c v, snd wp @ date_params v)"
  by (simp add: push_date_def date_clause_def date_params_def split: option.splits)

lemma push_list_eq: "push_list col v wp = (fst wp @ list_clause col v, snd wp @ list_params v)"
  by (simp add: push_list_def list_clause_def list_params_def shape_def Let_def
      length_filter_values split: option.splits)

lemma incidents_where_eq:
  "incidents_where q =
     (date_clause Date_ge (q_start_date q) @ date_clause Date_le (q_end_date q)
        @ list_clause Col_code (q_code q) @ list_clause Col_police_grid (q_grid q)
        @ list_clause Col_neighborhood_number (q_neighborhood q),
      date_params (q_start_date q) @ date_params (q_end_date q)
        @ list_params (q_code q) @ list_params (q_grid q)
        @ list_params (q_neighborhood q))"
  by (simp add: incidents_where_def push_date_eq push_list_eq)

lemma date_clause_shape: "(given v = None \<longleftrightarrow> given v' = None) \<Longrightarrow> date_clause c v = date_clause c v'"
  by (auto simp: date_clause_def split: option.splits)

lemma incidents_query_shape:
  assumes "given (q_start_date q) = None \<longleftrightarrow> given (q_start_date q') = None"
    and "given (q_end_date q) = None \<longleftrightarrow> given (q_end_date q') = None"
    and "shape (q_code q) = shape (q_code q')"
    and "shape (q_grid q) = shape (q_grid q')"
    and "shape (q_neighborhood q) = shape (q_neighborhood q')"
    and "effective_limit (q_limit q) = effective_limit (q_limit q')"
  shows "incidents_query num_text q = incidents_query num_text q'"
proof -
  have "fst (incidents_where q) = fst (incidents_where q')"
    using assms(1-5)
    by (simp add: incidents_where_eq list_clause_def
        date_clause_shape[of "q_start_date q" "q_start_date q'"]
        date_clause_shape[of "q_end_date q" "q_end_date q'"])
  then show ?thesis using assms(6) by (simp add: incidents_query_def)
qed

lemma in_clause_text:
  "clause_sql (In_list col (length (filter_values s)))
     = column_name col @ '' IN ('' @ placeholders (filter_values s) @ '')''"
  using placeholders_length[of "filter_values s"] by simp

subsection \<open>Dates and times that SQLite gives back unchanged\<close>








subsection \<open>The clauses and the filters of the specification\<close>

lemma where_holds_append:
  "length ps = sum_list (map clause_arity cs) \<Longrightarrow>
   where_holds E (cs @ cs') (ps @ ps') r \<longleftrightarrow> where_holds E cs ps r \<and> where_holds E cs' ps' r"
proof (induction cs arbitrary: ps)
  case Nil
  then show ?case by simp
next
  case (Cons c cs)
  then have l: "length (drop (clause_arity c) ps) = sum_list (map clause_arity cs)"
    and a: "clause_arity c \<le> length ps"
    by simp_all
  from Cons.IH[OF l] a show ?case by simp
qed

lemma date_block_arity:
  "length (date_params v) = sum_list (map clause_arity (date_clause Date_ge v))"
  "length (date_params v) = sum_list (map clause_arity (date_clause Date_le v))"
  by (auto simp: date_params_def date_clause_def split: option.splits)

lemma list_block_arity:
  "length (list_params v) = sum_list (map clause_arity (list_clause col v))"
  by (auto simp: list_params_def list_clause_def shape_def length_filter_values split: option.splits)

lemma date_ge_block:
  "where_holds E (date_clause Date_ge v) (date_params v) r \<longleftrightarrow>
     (case given v of
        Some s \<Rightarrow> sql_ge (sql_DATE E (date_time r)) (SqlText s) | None \<Rightarrow> True)"
  by (auto simp: date_params_def date_clause_def split: option.splits)

lemma date_le_block:
  "where_holds E (date_clause Date_le v) (date_params v) r \<longleftrightarrow>
     (case given v of
        Some s \<Rightarrow> sql_le (sql_DATE E (date_time r)) (SqlText s) | None \<Rightarrow> True)"
  by (auto simp: date_params_def date_clause_def split: option.splits)

lemma list_block:
  "where_holds E (list_clause col v) (list_params v) r \<longleftrightarrow>
     (case given v of
        Some s \<Rightarrow> list_ex (\<lambda>c. sql_equals E col (column_value col r) (SqlText c)) (filter_values s)
      | None \<Rightarrow> True)"
  by (auto simp: list_params_def list_clause_def shape_def length_filter_values
      list_ex_iff split: option.splits)

lemma where_incidents:
  "where_holds E (fst (incidents_where q)) (snd (incidents_where q)) r \<longleftrightarrow> row_matches E q r"
proof -
  have "where_holds E (fst (incidents_where q)) (snd (incidents_where q)) r \<longleftrightarrow>
      where_holds E (date_clause Date_ge (q_start_date q)) (date_params (q_start_date q)) r
    \<and> where_holds E (date_clause Date_le (q_end_date q)) (date_params (q_end_date q)) r
    \<and> where_holds E (list_clause Col_code (q_code q)) (list_params (q_code q)) r
    \<and> where_holds E (list_clause Col_police_grid (q_grid q)) (list_params (q_grid q)) r
    \<and> where_holds E (list_clause Col_neighborhood_number (q_neighborhood q))
          (list_params (q_neighborhood q)) r"
    unfolding incidents_where_eq fst_conv snd_conv
    by (simp only: where_holds_append[OF date_block_arity(1)]
        where_holds_append[OF date_block_arity(2)] where_holds_append[OF list_block_arity])
  then show ?thesis
    by (simp only: date_ge_block date_le_block list_block row_matches_def column_value.simps)
qed

lemma select_rows_matches:
  "select_rows E db (fst (incidents_where q)) (snd (incidents_where q))
     = filter (row_matches E q) db"
proof -
  have "where_holds E (fst (incidents_where q)) (snd (incidents_where q)) = row_matches E q"
    by (rule ext) (rule where_incidents)
  then show ?thesis by (simp add: select_rows_def)
qed

lemma set_order_by: "set (order_by_date_time_desc rows) = set rows"
  by (simp add: order_by_date_time_desc_def)

lemma length_order_by: "length (order_by_date_time_desc rows) = length rows"
  by (simp add: order_by_date_time_desc_def)

lemma selected_subset:
  "set (selected_incidents E db q) \<subseteq> {r \<in> set db. row_matches E q r}"
proof -
  have "set (selected_incidents E db q) \<subseteq> set (order_by_date_time_desc (filter (row_matches E q) db))"
    unfolding selected_incidents_def select_rows_matches by (rule set_take_subset)
  then show ?thesis by (auto simp: set_order_by)
qed

lemma selected_all:
  assumes "length (filter (row_matches E q) db) \<le> nat (effective_limit (q_limit q))"
  shows "set (selected_incidents E db q) = {r \<in> set db. row_matches E q r}"
  using assms
  by (auto simp: selected_incidents_def select_rows_matches length_order_by set_order_by)

lemma row_matches_drop_code:
  "row_matches E q r \<Longrightarrow> row_matches E (q\<lparr>q_code := None\<rparr>) r"
  by (simp add: row_matches_def given_def)



subsection \<open>The claims about the limit and the statement text\<close>





text \<open>
  Claim C8, as the code has it. The text of the statement of \<open>GET /codes\<close> and of
  \<open>GET /neighborhoods\<close> is the same for two requests whose filter has the same shape
  (given or not, and the number of its elements); the values of the filter are the
  bound parameters, trimmed, in their order. The text of the statement of
  \<open>GET /incidents\<close> is the same for two requests whose dates are given alike, whose
  list filters have the same shapes and whose effective limits are equal; the filter
  values are the bound parameters; the limit is in the text, as the text of a positive
  number after \<open>LIMIT\<close>.
\<close>

theorem sql_text_from_shape_and_limit:
  "(shape c = shape c' \<longrightarrow> fst (codes_statement c) = fst (codes_statement c'))
   \<and> snd (codes_statement c) = list_params c
   \<and> (shape c = shape c' \<longrightarrow> fst (neighborhoods_statement c) = fst (neighborhoods_statement c'))
   \<and> snd (neighborhoods_statement c) = list_params c
   \<and> ((given (q_start_date q) = None \<longleftrightarrow> given (q_start_date q') = None)
       \<and> (given (q_end_date q) = None \<longleftrightarrow> given (q_end_date q') = None)
       \<and> shape (q_code q) = shape (q_code q')
       \<and> shape (q_grid q) = shape (q_grid q')
       \<and> shape (q_neighborhood q) = shape (q_neighborhood q')
       \<and> effective_limit (q_limit q) = effective_limit (q_limit q')
       \<longrightarrow> incidents_query num_text q = incidents_query num_text q')
   \<and> snd (incidents_where q) =
        date_params (q_start_date q) @ date_params (q_end_date q) @ list_params (q_code q)
        @ list_params (q_grid q) @ list_params (q_neighborhood q)
   \<and> (\<exists>pre. incidents_query num_text q
          = pre @ '' LIMIT '' @ num_text (effective_limit (q_limit q)))
   \<and> 0 < effective_limit (q_limit q)"
proof -
  have 1: "shape c = shape c' \<longrightarrow> fst (codes_statement c) = fst (codes_statement c')"
    by (simp add: codes_text_shape)
  have 2: "snd (codes_statement c) = list_params c"
    by (simp add: codes_params list_params_def)
  have 3: "shape c = shape c' \<longrightarrow> fst (neighborhoods_statement c) = fst (neighborhoods_statement c')"
    by (simp add: neighborhoods_text_shape)
  have 4: "snd (neighborhoods_statement c) = list_params c"
    by (simp add: neighborhoods_params list_params_def)
  have 5: "(given (q_start_date q) = None \<longleftrightarrow> given (q_start_date q') = None)
       \<and> (given (q_end_date q) = None \<longleftrightarrow> given (q_end_date q') = None)
       \<and> shape (q_code q) = shape (q_code q')
       \<and> shape (q_grid q) = shape (q_grid q')
       \<and> shape (q_neighborhood q) = shape (q_neighborhood q')
       \<and> effective_limit (q_limit q) = effective_limit (q_limit q')
       \<longrightarrow> incidents_query num_text q = incidents_query num_text q'"
    by (intro impI, elim conjE, rule incidents_query_shape; assumption)
  have 6: "snd (incidents_where q) =
        date_params (q_start_date q) @ date_params (q_end_date q) @ list_params (q_code q)
        @ list_params (q_grid q) @ list_params (q_neighborhood q)"
    by (simp add: incidents_where_eq)
  from 1 2 3 4 5 6 incidents_query_ends[of num_text q] effective_limit_pos[of "q_limit q"]
  show ?thesis by blast
qed

theorem sql_text_from_shape_and_limit_witness:
  "fst (codes_statement (Some ''110, 120'')) = fst (codes_statement (Some ''x,y''))
   \<and> fst (codes_statement (Some ''110, 120''))
       = ''SELECT code, incident_type FROM Codes WHERE code IN (?,?) ORDER BY code''
   \<and> snd (codes_statement (Some ''110, 120'')) = [SqlText ''110'', SqlText ''120'']
   \<and> incidents_query decimal (no_filters\<lparr>q_code := Some ''1,2'', q_limit := Some ''5''\<rparr>)
       = incidents_query decimal (no_filters\<lparr>q_code := Some ''a,b'', q_limit := Some ''5 ''\<rparr>)"
proof -
  have s: "shape (Some ''110, 120'') = shape (Some ''x,y'')"
    "shape (Some ''1,2'') = shape (Some ''a,b'')"
    "effective_limit (Some ''5'') = effective_limit (Some ''5 '')"
    by code_simp+
  have t: "fst (codes_statement (Some ''110, 120''))
       = ''SELECT code, incident_type FROM Codes WHERE code IN (?,?) ORDER BY code''"
    "list_params (Some ''110, 120'') = [SqlText ''110'', SqlText ''120'']"
    by code_simp+
  show ?thesis
    using sql_text_from_shape_and_limit[of "Some ''110, 120''" "Some ''x,y''"
        "no_filters\<lparr>q_code := Some ''1,2'', q_limit := Some ''5''\<rparr>"
        "no_filters\<lparr>q_code := Some ''a,b'', q_limit := Some ''5 ''\<rparr>" decimal] s t
    by (simp add: no_filters_def given_def)
qed

text \<open>
  The claim as it is worded fails on the limit: two requests without any filter, which
  differ only in the value of \<open>limit\<close>, have different statement texts.
\<close>

theorem sql_text_differs_with_limit:
  "incidents_where (no_filters\<lparr>q_limit := Some ''5''\<rparr>) = ([], [])
   \<and> incidents_where (no_filters\<lparr>q_limit := Some ''7''\<rparr>) = ([], [])
   \<and> incidents_query decimal (no_filters\<lparr>q_limit := Some ''5''\<rparr>)
       \<noteq> incidents_query decimal (no_filters\<lparr>q_limit := Some ''7''\<rparr>)"
  by code_simp

subsection \<open>The claims about the listed rows\<close>

lemma get_incidents_json:
  "get_incidents num_text E db q = Json 200 out \<Longrightarrow>
   out = map (select_list E) (selected_incidents E db q)"
  by (simp add: get_incidents_def split: if_splits)


lemma selected_code:
  assumes "given (q_code q) = Some s" and "r \<in> set (selected_incidents E db q)"
  shows "\<exists>c \<in> set (filter_values s). sql_equals E Col_code (code r) (SqlText c)"
proof -
  from assms(2) selected_subset have "row_matches E q r" by blast
  with assms(1) show ?thesis by (simp add: row_matches_def list_ex_iff)
qed

lemma selected_within_unfiltered_matches:
  "set (selected_incidents E db q) \<subseteq> {r \<in> set db. row_matches E (q\<lparr>q_code := None\<rparr>) r}"
  using selected_subset[of E db q] row_matches_drop_code by blast

lemma selected_within_unfiltered:
  assumes "length (filter (row_matches E (q\<lparr>q_code := None\<rparr>)) db)
             \<le> nat (effective_limit (q_limit q))"
  shows "set (selected_incidents E db q) \<subseteq> set (selected_incidents E db (q\<lparr>q_code := None\<rparr>))"
proof -
  have "set (selected_incidents E db (q\<lparr>q_code := None\<rparr>))
      = {r \<in> set db. row_matches E (q\<lparr>q_code := None\<rparr>) r}"
    using assms by (intro selected_all) simp
  with selected_within_unfiltered_matches show ?thesis by blast
qed

text \<open>
  Claim C2, as the code has it. With a code filter given, every row selected, and so
  every row of the JSON answer, has a code equal to one of the trimmed elements of the
  filter. The rows selected are among the rows of the table that match the same
  request without the code filter; they are among the rows that request returns when
  its matching rows are no more than the limit, so that nothing is cut from its
  answer.
\<close>

theorem code_filter_selects_matching_rows:
  "given (q_code q) = Some s \<longrightarrow>
     (\<forall>r \<in> set (selected_incidents E db q).
        \<exists>c \<in> set (filter_values s). sql_equals E Col_code (code r) (SqlText c))
   \<and> set (selected_incidents E db q) \<subseteq> {r \<in> set db. row_matches E (q\<lparr>q_code := None\<rparr>) r}
   \<and> (length (filter (row_matches E (q\<lparr>q_code := None\<rparr>)) db)
          \<le> nat (effective_limit (q_limit q)) \<longrightarrow>
        set (selected_incidents E db q) \<subseteq> set (selected_incidents E db (q\<lparr>q_code := None\<rparr>)))
   \<and> (\<forall>out. get_incidents num_text E db q = Json 200 out \<longrightarrow>
          out = map (select_list E) (selected_incidents E db q)
        \<and> (\<forall>x \<in> set out.
              \<exists>c \<in> set (filter_values s). sql_equals E Col_code (res_code x) (SqlText c))
        \<and> (\<forall>out'. get_incidents num_text E db (q\<lparr>q_code := None\<rparr>) = Json 200 out'
                 \<and> length (filter (row_matches E (q\<lparr>q_code := None\<rparr>)) db)
                      \<le> nat (effective_limit (q_limit q)) \<longrightarrow>
               set out \<subseteq> set out'))"
proof
  assume g: "given (q_code q) = Some s"
  have 1: "\<forall>r \<in> set (selected_incidents E db q).
        \<exists>c \<in> set (filter_values s). sql_equals E Col_code (code r) (SqlText c)"
    using selected_code[OF g] by blast
  have 2: "set (selected_incidents E db q) \<subseteq> {r \<in> set db. row_matches E (q\<lparr>q_code := None\<rparr>) r}"
    by (rule selected_within_unfiltered_matches)
  have 3: "length (filter (row_matches E (q\<lparr>q_code := None\<rparr>)) db)
          \<le> nat (effective_limit (q_limit q)) \<longrightarrow>
        set (selected_incidents E db q) \<subseteq> set (selected_incidents E db (q\<lparr>q_code := None\<rparr>))"
    using selected_within_unfiltered by blast
  have 4: "\<forall>out. get_incidents num_text E db q = Json 200 out \<longrightarrow>
          out = map (select_list E) (selected_incidents E db q)
        \<and> (\<forall>x \<in> set out.
              \<exists>c \<in> set (filter_values s). sql_equals E Col_code (res_code x) (SqlText c))
        \<and> (\<forall>out'. get_incidents num_text E db (q\<lparr>q_code := None\<rparr>) = Json 200 out'
                 \<and> length (filter (row_matches E (q\<lparr>q_code := None\<rparr>)) db)
                      \<le> nat (effective_limit (q_limit q)) \<longrightarrow>
               set out \<subseteq> set out')"
  proof (intro allI impI)
    fix out
    assume o: "get_incidents num_text E db q = Json 200 out"
    have a: "out = map (select_list E) (selected_incidents E db q)"
      using o by (rule get_incidents_json)
    have b: "\<forall>x \<in> set out.
              \<exists>c \<in> set (filter_values s). sql_equals E Col_code (res_code x) (SqlText c)"
      using 1 unfolding a by (auto simp: select_list_def)
    have c: "\<forall>out'. get_incidents num_text E db (q\<lparr>q_code := None\<rparr>) = Json 200 out'
                 \<and> length (filter (row_matches E (q\<lparr>q_code := None\<rparr>)) db)
                      \<le> nat (effective_limit (q_limit q)) \<longrightarrow>
               set out \<subseteq> set out'"
    proof (intro allI impI, elim conjE)
      fix out'
      assume o': "get_incidents num_text E db (q\<lparr>q_code := None\<rparr>) = Json 200 out'"
        and l: "length (filter (row_matches E (q\<lparr>q_code := None\<rparr>)) db)
                      \<le> nat (effective_limit (q_limit q))"
      have "out' = map (select_list E) (selected_incidents E db (q\<lparr>q_code := None\<rparr>))"
        using o' by (rule get_incidents_json)
      with a selected_within_unfiltered[OF l] show "set out \<subseteq> set out'" by auto
    qed
    from a b c show "out = map (select_list E) (selected_incidents E db q)
        \<and> (\<forall>x \<in> set out.
              \<exists>c \<in> set (filter_values s). sql_equals E Col_code (res_code x) (SqlText c))
        \<and> (\<forall>out'. get_incidents num_text E db (q\<lparr>q_code := None\<rparr>) = Json 200 out'
                 \<and> length (filter (row_matches E (q\<lparr>q_code := None\<rparr>)) db)
                      \<le> nat (effective_limit (q_limit q)) \<longrightarrow>
               set out \<subseteq> set out')"
      by blast
  qed
  from 1 2 3 4 show "(\<forall>r \<in> set (selected_incidents E db q).
        \<exists>c \<in> set (filter_values s). sql_equals E Col_code (code r) (SqlText c))
   \<and> set (selected_incidents E db q) \<subseteq> {r \<in> set db. row_matches E (q\<lparr>q_code := None\<rparr>) r}
   \<and> (length (filter (row_matches E (q\<lparr>q_code := None\<rparr>)) db)
          \<le> nat (effective_limit (q_limit q)) \<longrightarrow>
        set (selected_incidents E db q) \<subseteq> set (selected_incidents E db (q\<lparr>q_code := None\<rparr>)))
   \<and> (\<forall>out. get_incidents num_text E db q = Json 200 out \<longrightarrow>
          out = map (select_list E) (selected_incidents E db q)
        \<and> (\<forall>x \<in> set out.
              \<exists>c \<in> set (filter_values s). sql_equals E Col_code (res_code x) (SqlText c))
        \<and> (\<forall>out'. get_incidents num_text E db (q\<lparr>q_code := None\<rparr>) = Json 200 out'
                 \<and> length (filter (row_matches E (q\<lparr>q_code := None\<rparr>)) db)
                      \<le> nat (effective_limit (q_limit q)) \<longrightarrow>
               set out \<subseteq> set out'))"
    by blast
qed

lemma sample_code_2:
  "given (q_code (no_filters\<lparr>q_code := Some ''2''\<rparr>)) = Some ''2''"
  "get_incidents decimal sample_engine sample_db (no_filters\<lparr>q_code := Some ''2''\<rparr>)
     = Json 200 [select_list sample_engine (sample_row ''B'' ''2024-01-01T09:00:00'' 2)]"
  "get_incidents decimal sample_engine sample_db (no_filters\<lparr>q_code := Some ''2''\<rparr>\<lparr>q_code := None\<rparr>)
     = Json 200 [select_list sample_engine (sample_row ''A'' ''2024-01-02T10:00:00'' 1),
                 select_list sample_engine (sample_row ''B'' ''2024-01-01T09:00:00'' 2)]"
  "length (filter (row_matches sample_engine (no_filters\<lparr>q_code := Some ''2''\<rparr>\<lparr>q_code := None\<rparr>)) sample_db)
     \<le> nat (effective_limit (q_limit (no_filters\<lparr>q_code := Some ''2''\<rparr>)))"
  "filter_values ''2'' = [''2'']"
  by code_simp+

theorem code_filter_selects_matching_rows_witness:
  "given (q_code (no_filters\<lparr>q_code := Some ''2''\<rparr>)) = Some ''2''
   \<and> get_incidents decimal sample_engine sample_db (no_filters\<lparr>q_code := Some ''2''\<rparr>)
       = Json 200 [select_list sample_engine (sample_row ''B'' ''2024-01-01T09:00:00'' 2)]
   \<and> sql_equals sample_engine Col_code
        (res_code (select_list sample_engine (sample_row ''B'' ''2024-01-01T09:00:00'' 2)))
        (SqlText ''2'')
   \<and> set [select_list sample_engine (sample_row ''B'' ''2024-01-01T09:00:00'' 2)]
       \<subseteq> set [select_list sample_engine (sample_row ''A'' ''2024-01-02T10:00:00'' 1),
                select_list sample_engine (sample_row ''B'' ''2024-01-01T09:00:00'' 2)]"
proof -
  note t = code_filter_selects_matching_rows[of "no_filters\<lparr>q_code := Some ''2''\<rparr>" "''2''"
      sample_engine sample_db decimal]
  from t sample_code_2(1,2)
  have "\<forall>x \<in> set [select_list sample_engine (sample_row ''B'' ''2024-01-01T09:00:00'' 2)].
      \<exists>c \<in> set (filter_values ''2''). sql_equals sample_engine Col_code (res_code x) (SqlText c)"
    by blast
  then have e: "sql_equals sample_engine Col_code
        (res_code (select_list sample_engine (sample_row ''B'' ''2024-01-01T09:00:00'' 2)))
        (SqlText ''2'')"
    by (simp add: sample_code_2(5))
  from t sample_code_2(1,2,3,4)
  have "set [select_list sample_engine (sample_row ''B'' ''2024-01-01T09:00:00'' 2)]
       \<subseteq> set [select_list sample_engine (sample_row ''A'' ''2024-01-02T10:00:00'' 1),
                select_list sample_engine (sample_row ''B'' ''2024-01-01T09:00:00'' 2)]"
    by blast
  with e sample_code_2(1,2) show ?thesis by blast
qed

text \<open>
  The claim as it is worded fails when the limit cuts the unfiltered answer: with a
  limit of 1 the request for code 2 returns the older incident, and the same request
  without the code filter returns only the newest one.
\<close>

theorem code_filter_not_within_limited_list:
  "get_incidents decimal sample_engine sample_db
      (no_filters\<lparr>q_code := Some ''2'', q_limit := Some ''1''\<rparr>)
     = Json 200 [select_list sample_engine (sample_row ''B'' ''2024-01-01T09:00:00'' 2)]
   \<and> get_incidents decimal sample_engine sample_db
      (no_filters\<lparr>q_code := Some ''2'', q_limit := Some ''1''\<rparr>\<lparr>q_code := None\<rparr>)
     = Json 200 [select_list sample_engine (sample_row ''A'' ''2024-01-02T10:00:00'' 1)]
   \<and> select_list sample_engine (sample_row ''B'' ''2024-01-01T09:00:00'' 2)
     \<notin> set [select_list sample_engine (sample_row ''A'' ''2024-01-02T10:00:00'' 1)]"
  by code_simp




subsection \<open>The claims about creating and deleting\<close>








subsection \<open>The round trip of date and time\<close>







end
